theory Spec2Isabelle
  imports Complex_Main
begin

section \<open>Theta-theta transformation of scintools (\<^verbatim>\<open>ththmod.py\<close>)\<close>

text \<open>
  A shallow embedding of the functions of \<^verbatim>\<open>src/scintools/ththmod.py\<close>.
  A numpy \<^verbatim>\<open>float64\<close> is read as an exact real and a \<^verbatim>\<open>complex128\<close> as an exact
  complex number; the places where the source produces or tests for a NaN (the mean of an
  empty array, the square root of a negative number, a division of zero by zero) are written
  out with an explicit value \<open>NaN\<close>. An astropy \<^verbatim>\<open>Quantity\<close> is read as its value
  in the units the docstrings name (tau in microseconds, fd in mHz, eta in \<^verbatim>\<open>us/mHz**2\<close>), so
  \<^verbatim>\<open>.value\<close> and the unit factors disappear. A one-dimensional array is a list, a
  two-dimensional array a list of rows. Every exception the source can raise is a value
  \<open>Inl e\<close> of the result.
\<close>

subsection \<open>Exceptions and numpy values\<close>

datatype exn = IndexError | ValueError | NameError | LibraryError

datatype npfloat = Fin real | PosInf | NegInf | NaN

datatype npcomplex = Cx complex | CxNaN

type_synonym cmat = "complex list list"

fun np_isfinite :: "npfloat \<Rightarrow> bool" where
  "np_isfinite (Fin x) = True"
| "np_isfinite PosInf = False"
| "np_isfinite NegInf = False"
| "np_isfinite NaN = False"

fun np_neg :: "npfloat \<Rightarrow> npfloat" where
  "np_neg (Fin x) = Fin (- x)"
| "np_neg PosInf = NegInf"
| "np_neg NegInf = PosInf"
| "np_neg NaN = NaN"

fun np_add :: "npfloat \<Rightarrow> npfloat \<Rightarrow> npfloat" where
  "np_add (Fin a) (Fin b) = Fin (a + b)"
| "np_add NaN b = NaN"
| "np_add a NaN = NaN"
| "np_add PosInf NegInf = NaN"
| "np_add NegInf PosInf = NaN"
| "np_add PosInf b = PosInf"
| "np_add a PosInf = PosInf"
| "np_add NegInf b = NegInf"
| "np_add a NegInf = NegInf"

text \<open>\<^verbatim>\<open>np.sqrt\<close> of a real array: a negative entry gives NaN (with a warning, no exception).\<close>

definition np_sqrt :: "real \<Rightarrow> npfloat" where
  "np_sqrt x = (if x < 0 then NaN else Fin (sqrt x))"

text \<open>\<^verbatim>\<open>np.diff(xs)\<close> and \<^verbatim>\<open>xs.mean()\<close>. The mean of an empty array is NaN in numpy; \<open>np_mean\<close>
  is the mean of a non-empty array, and every use below on a possibly empty array writes the
  empty case out.\<close>

definition np_diff :: "real list \<Rightarrow> real list" where
  "np_diff xs = map2 (\<lambda>b a. b - a) (tl xs) (butlast xs)"

definition np_mean :: "real list \<Rightarrow> real" where
  "np_mean xs = sum_list xs / real (length xs)"

text \<open>Indexing an axis of length \<open>n\<close> by a Python integer: negative indices count from the
  end, anything outside \<open>[-n, n)\<close> raises IndexError.\<close>

definition np_index :: "nat \<Rightarrow> int \<Rightarrow> exn + nat" where
  "np_index n i =
     (if 0 \<le> i \<and> i < int n then Inr (nat i)
      else if - int n \<le> i \<and> i < 0 then Inr (nat (i + int n))
      else Inl IndexError)"

text \<open>A boolean mask applied to an array: the entries whose mask bit is set, in order.\<close>

definition np_mask :: "bool list \<Rightarrow> 'a list \<Rightarrow> 'a list" where
  "np_mask m xs = map snd (filter fst (zip m xs))"

text \<open>Collecting the results of a list of computations: the first exception wins.\<close>

fun sequence_r :: "(exn + 'a) list \<Rightarrow> exn + 'a list" where
  "sequence_r [] = Inr []"
| "sequence_r (x # xs) =
     (case x of
        Inl e \<Rightarrow> Inl e
      | Inr v \<Rightarrow> (case sequence_r xs of Inl e \<Rightarrow> Inl e | Inr vs \<Rightarrow> Inr (v # vs)))"

text \<open>The \<open>n\<close> by \<open>n\<close> array with entry \<open>f i j\<close> in row \<open>i\<close>, column \<open>j\<close>.\<close>

definition mat_of :: "nat \<Rightarrow> (nat \<Rightarrow> nat \<Rightarrow> 'a) \<Rightarrow> 'a list list" where
  "mat_of n f = map (\<lambda>i. map (\<lambda>j. f i j) [0 ..< n]) [0 ..< n]"

subsection \<open>Bin centers (lines 43-45, repeated at 96-97, 124-125, 192-193)\<close>

text \<open>
  \<^verbatim>\<open>th_cents = (edges[1:] + edges[:-1]) / 2\<close> and
  \<^verbatim>\<open>th_cents -= th_cents[np.abs(th_cents) == np.abs(th_cents).min()]\<close>.
  The minimum of an empty array raises ValueError. The boolean mask selects every center of
  least magnitude; the in-place subtraction broadcasts the selection against \<open>th_cents\<close>,
  which numpy accepts only when one center is selected or all of them are, and refuses with
  a ValueError otherwise.
\<close>

definition midpoints :: "real list \<Rightarrow> real list" where
  "midpoints edges = map2 (\<lambda>a b. (a + b) / 2) (tl edges) (butlast edges)"

definition bin_centers :: "real list \<Rightarrow> exn + real list" where
  "bin_centers edges =
     (let th_cents = midpoints edges in
      if th_cents = [] then Inl ValueError
      else
        let m = Min (set (map abs th_cents));
            sel = filter (\<lambda>x. \<bar>x\<bar> = m) th_cents
        in if length sel = 1 then Inr (map (\<lambda>x. x - hd sel) th_cents)
           else if length sel = length th_cents then Inr (map2 (-) th_cents sel)
           else Inl ValueError)"

text \<open>An array is symmetric about zero when entry \<open>k\<close> is the negative of entry
  \<open>n - 1 - k\<close>; for bin centers this is antisymmetry about the middle of the array.\<close>

definition sym_about_zero :: "real list \<Rightarrow> bool" where
  "sym_about_zero xs = (\<forall>k < length xs. xs ! k = - (xs ! (length xs - 1 - k)))"

subsection \<open>Arc-length edges (\<^verbatim>\<open>len_arc\<close>, \<^verbatim>\<open>arc_edges\<close>, lines 206-220)\<close>

definition len_arc :: "real \<Rightarrow> real \<Rightarrow> real" where
  "len_arc x eta =
     (let a = 2 * eta in (a * x * sqrt ((a * x)\<^sup>2 + 1) + arsinh (a * x)) / (2 * a))"

text \<open>One pass of the loop body \<^verbatim>\<open>x[i+1] = x[i] + dl/sqrt(1 + (2*eta_ul*x[i])**2)\<close>.\<close>

definition arc_step :: "real \<Rightarrow> real \<Rightarrow> nat \<Rightarrow> real list \<Rightarrow> real list" where
  "arc_step dl eta_ul i x = x[i + 1 := x ! i + dl / sqrt (1 + (2 * eta_ul * x ! i)\<^sup>2)]"

text \<open>\<^verbatim>\<open>x = np.zeros(int(n//2))\<close>; \<^verbatim>\<open>x[0] = dl/2\<close> raises IndexError on an empty array;
  the loop runs over \<^verbatim>\<open>range(x.shape[0] - 1)\<close>; the result is
  \<^verbatim>\<open>np.concatenate((-x[::-1], x)) * dfd\<close>.\<close>

definition arc_edges :: "real \<Rightarrow> real \<Rightarrow> real \<Rightarrow> real \<Rightarrow> nat \<Rightarrow> exn + real list" where
  "arc_edges eta dfd dtau fd_max n =
     (let x_max = fd_max / dfd;
          eta_ul = dfd\<^sup>2 * eta / dtau;
          l_max = len_arc x_max eta_ul;
          dl = l_max / (real (n div 2) - 1 / 2);
          x0 = replicate (n div 2) 0
      in if x0 = [] then Inl IndexError
         else
           let x1 = x0[0 := dl / 2];
               x = fold (arc_step dl eta_ul) [0 ..< length x1 - 1] x1
           in Inr (map (\<lambda>v. v * dfd) (map uminus (rev x) @ x)))"

text \<open>The recurrence the loop computes, as a function of the position.\<close>

fun arc_x :: "real \<Rightarrow> real \<Rightarrow> nat \<Rightarrow> real" where
  "arc_x dl eta_ul 0 = dl / 2"
| "arc_x dl eta_ul (Suc i) =
     arc_x dl eta_ul i + dl / sqrt (1 + (2 * eta_ul * arc_x dl eta_ul i)\<^sup>2)"

subsection \<open>Forward mapper \<^verbatim>\<open>thth_map\<close> (lines 32-76)\<close>

text \<open>
  \<^verbatim>\<open>th1[i, j] = th_cents[j]\<close> and \<^verbatim>\<open>th2[i, j] = th_cents[i]\<close>. The indices into the
  secondary spectrum that entry \<open>(i, j)\<close> maps back to (lines 55-57); \<^verbatim>\<open>//\<close> is floor
  division and \<^verbatim>\<open>dtau\<close>, \<^verbatim>\<open>dfd\<close> are the mean steps of the axes.
\<close>

definition tau_inv :: "real list \<Rightarrow> real \<Rightarrow> real list \<Rightarrow> nat \<Rightarrow> nat \<Rightarrow> int" where
  "tau_inv tau eta th i j =
     (let dtau = np_mean (np_diff tau)
      in \<lfloor>(eta * ((th ! j)\<^sup>2 - (th ! i)\<^sup>2) - tau ! 0 + dtau / 2) / dtau\<rfloor>)"

definition fd_inv :: "real list \<Rightarrow> real list \<Rightarrow> nat \<Rightarrow> nat \<Rightarrow> int" where
  "fd_inv fd th i j =
     (let dfd = np_mean (np_diff fd)
      in \<lfloor>((th ! j - th ! i) - fd ! 0 + dfd / 2) / dfd\<rfloor>)"


text \<open>Line 63: \<^verbatim>\<open>pnts = (tau_inv > 0) * (tau_inv < tau.shape[0]) * (fd_inv < fd.shape[0])\<close>.\<close>

definition pnts :: "real list \<Rightarrow> real list \<Rightarrow> real \<Rightarrow> real list \<Rightarrow> nat \<Rightarrow> nat \<Rightarrow> bool" where
  "pnts tau fd eta th i j =
     (0 < tau_inv tau eta th i j \<and> tau_inv tau eta th i j < int (length tau)
      \<and> fd_inv fd th i j < int (length fd))"


text \<open>\<^verbatim>\<open>SS[r, c]\<close> for integer index arrays: each index is checked against its axis of
  \<open>SS\<close>, a negative one wraps around.\<close>

definition SS_lookup :: "cmat \<Rightarrow> int \<Rightarrow> int \<Rightarrow> exn + complex" where
  "SS_lookup SS r c =
     (case np_index (length SS) r of
        Inl e \<Rightarrow> Inl e
      | Inr r' \<Rightarrow>
          (case np_index (length (SS ! r')) c of
             Inl e \<Rightarrow> Inl e
           | Inr c' \<Rightarrow> Inr (SS ! r' ! c')))"

text \<open>Lines 60-64: \<^verbatim>\<open>thth = np.zeros(...)\<close>; \<^verbatim>\<open>thth[pnts] = SS[tau_inv[pnts], fd_inv[pnts]]\<close>.\<close>

definition thth_fill :: "cmat \<Rightarrow> real list \<Rightarrow> real list \<Rightarrow> real \<Rightarrow> real list \<Rightarrow> exn + cmat" where
  "thth_fill SS tau fd eta th =
     sequence_r (map (\<lambda>i. sequence_r (map (\<lambda>j.
        if pnts tau fd eta th i j
        then SS_lookup SS (tau_inv tau eta th i j) (fd_inv fd th i j)
        else Inr 0) [0 ..< length th])) [0 ..< length th])"

text \<open>Line 67: \<^verbatim>\<open>thth *= np.sqrt(np.abs(2*eta*(th2-th1)).value)\<close>.\<close>

definition flux_scale :: "real \<Rightarrow> real list \<Rightarrow> cmat \<Rightarrow> cmat" where
  "flux_scale eta th thth =
     mat_of (length th)
       (\<lambda>i j. thth ! i ! j * complex_of_real (sqrt \<bar>2 * eta * (th ! i - th ! j)\<bar>))"

definition np_tril :: "cmat \<Rightarrow> cmat" where
  "np_tril m = mat_of (length m) (\<lambda>i j. if j \<le> i then m ! i ! j else 0)"

definition np_triu :: "cmat \<Rightarrow> cmat" where
  "np_triu m = mat_of (length m) (\<lambda>i j. if i \<le> j then m ! i ! j else 0)"

definition np_transpose :: "cmat \<Rightarrow> cmat" where
  "np_transpose m = mat_of (length m) (\<lambda>i j. m ! j ! i)"

definition np_conjugate :: "cmat \<Rightarrow> cmat" where
  "np_conjugate m = map (map cnj) m"

text \<open>\<^verbatim>\<open>np.diag\<close> of a matrix is its diagonal; \<^verbatim>\<open>np.diag\<close> of a vector is the diagonal
  matrix.\<close>

definition np_diag_vec :: "cmat \<Rightarrow> complex list" where
  "np_diag_vec m = map (\<lambda>i. m ! i ! i) [0 ..< length m]"

definition np_diag_mat :: "complex list \<Rightarrow> cmat" where
  "np_diag_mat d = mat_of (length d) (\<lambda>i j. if i = j then d ! i else 0)"

definition mat_sub :: "cmat \<Rightarrow> cmat \<Rightarrow> cmat" where
  "mat_sub a b = map2 (map2 (-)) a b"

definition mat_add :: "cmat \<Rightarrow> cmat \<Rightarrow> cmat" where
  "mat_add a b = map2 (map2 (+)) a b"

text \<open>Lines 69-74; \<^verbatim>\<open>m[::-1, :]\<close> reverses the rows. \<^verbatim>\<open>np.nan_to_num\<close> changes nothing on
  finite entries.\<close>

definition force_hermitian :: "cmat \<Rightarrow> cmat" where
  "force_hermitian thth =
     (let t1 = mat_sub thth (np_tril thth);
          t2 = mat_add t1 (np_conjugate (np_transpose (np_triu t1)));
          t3 = mat_sub t2 (np_diag_mat (np_diag_vec t2));
          t4 = mat_sub t3 (rev (np_diag_mat (np_diag_vec (rev t3))))
      in t4)"

text \<open>\<^verbatim>\<open>tau[0]\<close> and \<^verbatim>\<open>fd[0]\<close> raise IndexError on an empty axis.\<close>

definition thth_map :: "cmat \<Rightarrow> real list \<Rightarrow> real list \<Rightarrow> real \<Rightarrow> real list \<Rightarrow> exn + cmat" where
  "thth_map SS tau fd eta edges =
     (case bin_centers edges of
        Inl e \<Rightarrow> Inl e
      | Inr th_cents \<Rightarrow>
          if tau = [] \<or> fd = [] then Inl IndexError
          else
            (case thth_fill SS tau fd eta th_cents of
               Inl e \<Rightarrow> Inl e
             | Inr thth \<Rightarrow> Inr (force_hermitian (flux_scale eta th_cents thth))))"

subsection \<open>Reduced-domain selector \<^verbatim>\<open>thth_redmap\<close> (lines 79-108)\<close>

text \<open>Lines 98-99: the mask of the bin centers that stay inside the secondary spectrum.\<close>

definition th_pnts :: "real list \<Rightarrow> real list \<Rightarrow> real \<Rightarrow> real list \<Rightarrow> bool list" where
  "th_pnts tau fd eta th_cents =
     map (\<lambda>t. t\<^sup>2 * eta < \<bar>Max (set tau)\<bar> \<and> \<bar>t\<bar> < \<bar>Max (set fd)\<bar> / 2) th_cents"

text \<open>\<^verbatim>\<open>th_cents[th_pnts]\<close>, the retained centers.\<close>

definition retained_centers :: "real list \<Rightarrow> real list \<Rightarrow> real \<Rightarrow> real list \<Rightarrow> real list" where
  "retained_centers tau fd eta th_cents = np_mask (th_pnts tau fd eta th_cents) th_cents"

text \<open>
  \<^verbatim>\<open>thth[th_pnts, :][:, th_pnts]\<close> keeps the masked rows, then the masked columns.
  \<^verbatim>\<open>edges_red[0]\<close> raises IndexError when fewer than two centers are retained; with exactly
  two, \<^verbatim>\<open>np.diff(edges_red)\<close> is empty and its mean is NaN, so both outer edges are NaN.
\<close>

definition thth_redmap ::
  "cmat \<Rightarrow> real list \<Rightarrow> real list \<Rightarrow> real \<Rightarrow> real list \<Rightarrow> exn + (cmat \<times> npfloat list)" where
  "thth_redmap SS tau fd eta edges =
     (case thth_map SS tau fd eta edges of
        Inl e \<Rightarrow> Inl e
      | Inr thth \<Rightarrow>
          (case bin_centers edges of
             Inl e \<Rightarrow> Inl e
           | Inr th_cents \<Rightarrow>
               let msk = th_pnts tau fd eta th_cents;
                   thth_red = map (np_mask msk) (np_mask msk thth);
                   edges_red = midpoints (np_mask msk th_cents)
               in if edges_red = [] then Inl IndexError
                  else
                    let d = (if np_diff edges_red = [] then NaN
                             else Fin (np_mean (np_diff edges_red)))
                    in Inr (thth_red,
                            [np_add (Fin (hd edges_red)) (np_neg d)]
                            @ map Fin edges_red
                            @ [np_add (Fin (last edges_red)) d])))"

text \<open>The entry \<open>(i, j)\<close> of the forward map in closed form, from the filled array \<open>raw\<close>
  of line 64: zero on both diagonals, the flux-scaled lookup above the main diagonal and the
  conjugate of the mirrored entry below it.\<close>

definition thth_entry :: "real \<Rightarrow> real list \<Rightarrow> cmat \<Rightarrow> nat \<Rightarrow> nat \<Rightarrow> complex" where
  "thth_entry eta th raw i j =
     (if i = j \<or> j = length th - 1 - i then 0
      else if i < j then raw ! i ! j * complex_of_real (sqrt \<bar>2 * eta * (th ! i - th ! j)\<bar>)
      else cnj (raw ! j ! i * complex_of_real (sqrt \<bar>2 * eta * (th ! j - th ! i)\<bar>)))"

text \<open>A four by four secondary spectrum of ones, used for the concrete evaluations.\<close>

definition ones4 :: cmat where
  "ones4 = [[1, 1, 1, 1], [1, 1, 1, 1], [1, 1, 1, 1], [1, 1, 1, 1]]"

subsection \<open>Values that may be NaN\<close>

text \<open>
  \<open>CxNaN\<close> is a complex value with a NaN part, as numpy gives for a finite complex number
  multiplied by NaN or for zero divided by zero. A product or quotient that numpy would give
  an infinite part is not told apart from it: none arises on the paths followed here
  (\<^verbatim>\<open>np.sqrt\<close> of a finite number is finite or NaN, and the norm of a row is zero only
  when the whole row is).
\<close>

fun np_abs :: "npfloat \<Rightarrow> npfloat" where
  "np_abs (Fin x) = Fin \<bar>x\<bar>"
| "np_abs PosInf = PosInf"
| "np_abs NegInf = PosInf"
| "np_abs NaN = NaN"

fun np_cmul :: "complex \<Rightarrow> npfloat \<Rightarrow> npcomplex" where
  "np_cmul z (Fin x) = Cx (z * complex_of_real x)"
| "np_cmul z PosInf = CxNaN"
| "np_cmul z NegInf = CxNaN"
| "np_cmul z NaN = CxNaN"

fun np_cdiv :: "npcomplex \<Rightarrow> real \<Rightarrow> npcomplex" where
  "np_cdiv (Cx z) s = (if s = 0 then CxNaN else Cx (z / complex_of_real s))"
| "np_cdiv CxNaN s = CxNaN"

fun np_conj :: "npcomplex \<Rightarrow> npcomplex" where
  "np_conj (Cx z) = Cx (cnj z)"
| "np_conj CxNaN = CxNaN"

type_synonym fmat = "npcomplex list list"

subsection \<open>The screen of \<^verbatim>\<open>G_revmap\<close> (line 194)\<close>

text \<open>
  \<^verbatim>\<open>screen = np.conjugate(V[:, m][:, 0] * np.sqrt(w[m]))\<close> with the mask
  \<^verbatim>\<open>m = (np.abs(w) == np.abs(w).max())\<close>. \<open>w\<close> is the array of eigenvalues and \<open>V\<close> the
  matrix whose column \<open>k\<close> is the eigenvector of \<open>w[k]\<close>, given by its rows. The maximum of an
  empty array raises ValueError; a mask of the wrong length raises IndexError; the product
  of the first selected column with the roots of the selected eigenvalues broadcasts, which
  numpy refuses with ValueError unless one eigenvalue is selected, or as many as the column
  has entries, or the column has one entry.
\<close>

definition G_revmap_screen :: "real list \<Rightarrow> cmat \<Rightarrow> exn + npcomplex list" where
  "G_revmap_screen w V =
     (if w = [] then Inl ValueError
      else
        let m = Max (set (map abs w));
            msk = map (\<lambda>x. \<bar>x\<bar> = m) w
        in if list_ex (\<lambda>row. length row \<noteq> length msk) V then Inl IndexError
           else
             let col = map (\<lambda>row. hd (np_mask msk row)) V;
                 s = map np_sqrt (np_mask msk w)
             in if length s = 1 then Inr (map (\<lambda>v. np_conj (np_cmul v (hd s))) col)
                else if length col = length s
                  then Inr (map2 (\<lambda>v x. np_conj (np_cmul v x)) col s)
                else if length col = 1 then Inr (map (\<lambda>x. np_conj (np_cmul (hd col) x)) s)
                else Inl ValueError)"

text \<open>The screen as the specification words it: \<open>conj (V\<^sub>k) * sqrt |w\<^sub>k|\<close> for the index \<open>k\<close>
  of the eigenvalue of largest magnitude.\<close>

definition screen_claimed :: "real list \<Rightarrow> cmat \<Rightarrow> nat \<Rightarrow> npcomplex list" where
  "screen_claimed w V k = map (\<lambda>row. Cx (cnj (row ! k) * complex_of_real (sqrt \<bar>w ! k\<bar>))) V"

subsection \<open>\<^verbatim>\<open>Eval_calc\<close> (lines 183-189)\<close>

text \<open>
  \<^verbatim>\<open>thth_red[thth_red.shape[0]//2, :]\<close> is basic indexing: \<open>v0\<close> is a view of the central
  row of \<open>thth_red\<close>, not a copy, and \<^verbatim>\<open>v0 /= ...\<close> divides in place. Arrays therefore live in
  a store, a view names the array it looks into and the row, and the in-place division
  writes the row of that array.
\<close>

type_synonym store = "nat \<rightharpoonup> fmat"

record np_view =
  base :: nat
  row_ix :: nat

definition view_read :: "store \<Rightarrow> np_view \<Rightarrow> npcomplex list" where
  "view_read h v = (case h (base v) of None \<Rightarrow> [] | Some a \<Rightarrow> a ! row_ix v)"

definition view_idiv :: "store \<Rightarrow> np_view \<Rightarrow> real \<Rightarrow> store" where
  "view_idiv h v s =
     (case h (base v) of
        None \<Rightarrow> h
      | Some a \<Rightarrow> h(base v \<mapsto> a[row_ix v := map (\<lambda>z. np_cdiv z s) (a ! row_ix v)]))"

text \<open>\<^verbatim>\<open>np.sqrt((np.abs(v0)**2).sum())\<close> of a row of finite entries.\<close>

definition row_norm :: "complex list \<Rightarrow> real" where
  "row_norm r = sqrt (\<Sum>z\<leftarrow>r. (cmod z)\<^sup>2)"

text \<open>
  Lines 184-187: what \<^verbatim>\<open>eigsh\<close> is called with, the array \<open>thth_red\<close> as it stands in the
  store after the division and the starting vector \<open>v0\<close>. \<^verbatim>\<open>thth_redmap\<close> returns at
  least two rows, so the central row exists.
\<close>

definition Eval_calc_args ::
  "cmat \<Rightarrow> real list \<Rightarrow> real list \<Rightarrow> real \<Rightarrow> real list \<Rightarrow> exn + (fmat \<times> npcomplex list)" where
  "Eval_calc_args SS tau fd eta edges =
     (case thth_redmap SS tau fd eta edges of
        Inl e \<Rightarrow> Inl e
      | Inr (thth_red, edges_red) \<Rightarrow>
          let h0 = [0 \<mapsto> map (map Cx) thth_red];
              v0 = \<lparr>base = 0, row_ix = length thth_red div 2\<rparr>;
              h1 = view_idiv h0 v0 (row_norm (thth_red ! (length thth_red div 2)))
          in Inr (case h1 0 of None \<Rightarrow> [] | Some a \<Rightarrow> a, view_read h1 v0))"

text \<open>
  The eigensolver \<^verbatim>\<open>scipy.sparse.linalg.eigsh(A, k, v0=...)\<close> is a parameter: it returns
  the eigenvalues and the matrix of eigenvectors, or raises. \<^verbatim>\<open>w[0]\<close> raises IndexError on
  an empty array.
\<close>

type_synonym eigsh_fn = "fmat \<Rightarrow> nat \<Rightarrow> npcomplex list option \<Rightarrow> exn + (npfloat list \<times> cmat)"

definition Eval_calc ::
  "eigsh_fn \<Rightarrow> cmat \<Rightarrow> real list \<Rightarrow> real list \<Rightarrow> real \<Rightarrow> real list \<Rightarrow> exn + npfloat" where
  "Eval_calc eigsh SS tau fd eta edges =
     (case Eval_calc_args SS tau fd eta edges of
        Inl e \<Rightarrow> Inl e
      | Inr (a, v0) \<Rightarrow>
          (case eigsh a 1 (Some v0) of
             Inl e \<Rightarrow> Inl e
           | Inr (w, V) \<Rightarrow> (case w of [] \<Rightarrow> Inl IndexError | w0 # _ \<Rightarrow> Inr (np_abs w0))))"

text \<open>The secondary spectrum of the concrete evaluation of \<^verbatim>\<open>Eval_calc\<close>.\<close>

definition SS34 :: cmat where
  "SS34 = [[1, 1, 1, 1], [1, 1, 3/2, 1], [1, 1, 1, 1], [1, 1, 2, 1]]"

text \<open>The product of a matrix with a vector, to state that a number is or is not an
  eigenvalue of a matrix handed to the solver.\<close>

definition mat_vec :: "cmat \<Rightarrow> complex list \<Rightarrow> complex list" where
  "mat_vec A x = map (\<lambda>row. sum_list (map2 (*) row x)) A"

subsection \<open>Curvature search \<^verbatim>\<open>single_search\<close> (lines 235-301)\<close>

text \<open>
  The eight entries of the \<^verbatim>\<open>params\<close> tuple. The time axis is read in units whose inverse is
  mHz and the frequency axis in units whose inverse is microseconds, so
  \<^verbatim>\<open>.to_value(unit)\<close> in \<^verbatim>\<open>fft_axis\<close> is the identity.
\<close>

record params =
  p_dspec2 :: "real list list"
  p_freq2 :: "real list"
  p_time2 :: "real list"
  p_eta_low :: real
  p_eta_high :: real
  p_edges :: "real list"
  p_name :: string
  p_plot :: bool

text \<open>What \<^verbatim>\<open>PlotFunc\<close> is called with at line 295, after the two global names.\<close>

record plot_args =
  pa_dspec2 :: "real list list"
  pa_SS :: cmat
  pa_fd :: "real list"
  pa_tau :: "real list"
  pa_edges :: "real list"
  pa_eta_fit :: npfloat
  pa_eta_sig :: npfloat
  pa_etas :: "real list"
  pa_eigs :: "npfloat list"
  pa_etas_fit :: "real list"
  pa_popt :: "(real \<times> real \<times> real) option"

text \<open>
  The collaborators outside the module are parameters, each free to raise:
  \<^verbatim>\<open>eigsh\<close>, \<^verbatim>\<open>curve_fit\<close> (data, initial guess \<open>(A, x0, C)\<close>, returning the fitted
  \<open>(A, x0, C)\<close>), the two-dimensional Fourier transforms, \<^verbatim>\<open>PlotFunc\<close> with everything it
  draws and \<^verbatim>\<open>plt.savefig\<close>; and the global names of the module, of some type \<open>'g\<close> of
  Python objects, which line 295 reads as \<^verbatim>\<open>time\<close> and \<^verbatim>\<open>freq\<close>.
\<close>

record 'g lib =
  lib_eigsh :: eigsh_fn
  lib_curve_fit :: "real list \<Rightarrow> real list \<Rightarrow> npfloat \<times> real \<times> real \<Rightarrow> exn + (real \<times> real \<times> real)"
  lib_fft2 :: "real list list \<Rightarrow> cmat"
  lib_ifft2 :: "cmat \<Rightarrow> cmat"
  lib_PlotFunc :: "'g \<Rightarrow> 'g \<Rightarrow> plot_args \<Rightarrow> exn + unit"
  lib_savefig :: "string \<Rightarrow> exn + unit"
  lib_globals :: "string \<Rightarrow> 'g option"

text \<open>What the function prints.\<close>

datatype log_entry = PlottingError | ChunkCompleted npfloat npfloat real

text \<open>\<^verbatim>\<open>np.linspace(a, b, n)\<close>.\<close>

definition np_linspace :: "real \<Rightarrow> real \<Rightarrow> nat \<Rightarrow> real list" where
  "np_linspace a b n = map (\<lambda>i. a + real i * ((b - a) / real (n - 1))) [0 ..< n]"

text \<open>\<^verbatim>\<open>np.fft.fftfreq(n, d)\<close>: the first \<open>(n - 1) div 2 + 1\<close> entries count up from zero, the
  rest count up from \<open>- (n div 2)\<close>, all over \<open>n * d\<close>. \<^verbatim>\<open>np.fft.fftshift\<close> rolls an axis by
  half its length.\<close>

definition fftfreq :: "nat \<Rightarrow> real \<Rightarrow> real list" where
  "fftfreq n d =
     map (\<lambda>i. (if i < (n - 1) div 2 + 1 then real i else real i - real n) / (real n * d)) [0 ..< n]"

definition fftshift :: "'a list \<Rightarrow> 'a list" where
  "fftshift xs = drop (length xs - length xs div 2) xs @ take (length xs - length xs div 2) xs"

definition fftshift2 :: "'a list list \<Rightarrow> 'a list list" where
  "fftshift2 m = fftshift (map fftshift m)"

text \<open>Lines 229-232; \<^verbatim>\<open>x[1]\<close> raises IndexError on fewer than two samples.\<close>

definition fft_axis :: "real list \<Rightarrow> nat \<Rightarrow> exn + real list" where
  "fft_axis x pad =
     (if length x < 2 then Inl IndexError
      else Inr (fftshift (fftfreq ((pad + 1) * length x) (x ! 1 - x ! 0))))"

text \<open>Lines 259-262: \<^verbatim>\<open>np.pad\<close> after the last row and column with the mean of the chunk.\<close>

definition dspec_pad :: "real list list \<Rightarrow> nat \<Rightarrow> real list list" where
  "dspec_pad a npad =
     (let nr = length a;
          nc = (case a of [] \<Rightarrow> 0 | r # _ \<Rightarrow> length r);
          v = np_mean (concat a)
      in map (\<lambda>row. row @ replicate (npad * nc) v) a
         @ replicate (npad * nr) (replicate (nc + npad * nc) v))"

text \<open>Lines 266-271: one eigenvalue per candidate curvature, NaN where the evaluation
  raised.\<close>

definition sweep ::
  "eigsh_fn \<Rightarrow> cmat \<Rightarrow> real list \<Rightarrow> real list \<Rightarrow> real list \<Rightarrow> real list \<Rightarrow> npfloat list" where
  "sweep eigsh SS tau fd etas edges =
     map (\<lambda>eta. case Eval_calc eigsh SS tau fd eta edges of Inl e \<Rightarrow> NaN | Inr v \<Rightarrow> v) etas"

fun fin_val :: "npfloat \<Rightarrow> real" where
  "fin_val (Fin x) = x"
| "fin_val PosInf = 0"
| "fin_val NegInf = 0"
| "fin_val NaN = 0"

text \<open>Division and square root of numpy floats: a zero divisor gives an infinity or NaN
  with a warning, never an exception.\<close>

definition np_fdiv :: "real \<Rightarrow> real \<Rightarrow> npfloat" where
  "np_fdiv a b =
     (if b = 0 then (if a = 0 then NaN else if 0 < a then PosInf else NegInf) else Fin (a / b))"

fun np_sqrt_f :: "npfloat \<Rightarrow> npfloat" where
  "np_sqrt_f (Fin x) = np_sqrt x"
| "np_sqrt_f PosInf = PosInf"
| "np_sqrt_f NegInf = NaN"
| "np_sqrt_f NaN = NaN"

text \<open>\<^verbatim>\<open>xs.std()\<close> of a non-empty array, and \<^verbatim>\<open>chi_par\<close> (lines 25-29).\<close>

definition np_std :: "real list \<Rightarrow> real" where
  "np_std xs = sqrt (np_mean (map (\<lambda>x. (x - np_mean xs)\<^sup>2) xs))"

definition chi_par :: "real \<Rightarrow> real \<Rightarrow> real \<Rightarrow> real \<Rightarrow> real" where
  "chi_par x A x0 C = A * (x - x0)\<^sup>2 + C"

text \<open>
  \<^verbatim>\<open>np.abs(etas - etas[eigs == eigs.max()]) < .1 * etas[eigs == eigs.max()]\<close>: the selection
  \<open>peak\<close> broadcasts against \<open>etas\<close>, which numpy refuses with ValueError unless it has one
  entry or as many as \<open>etas\<close>.
\<close>

definition window_mask :: "real list \<Rightarrow> real list \<Rightarrow> exn + bool list" where
  "window_mask etas peak =
     (if length peak = 1 then Inr (map (\<lambda>e. \<bar>e - hd peak\<bar> < 0.1 * hd peak) etas)
      else if length peak = length etas then Inr (map2 (\<lambda>e p. \<bar>e - p\<bar> < 0.1 * p) etas peak)
      else Inl ValueError)"

text \<open>Line 288.\<close>

definition eta_sig_of :: "real \<times> real \<times> real \<Rightarrow> real list \<Rightarrow> real list \<Rightarrow> npfloat" where
  "eta_sig_of popt etas_fit eigs_fit =
     (case popt of (A, x0, C) \<Rightarrow>
        np_sqrt_f (np_fdiv (np_std (map2 (\<lambda>y x. y - chi_par x A x0 C) eigs_fit etas_fit)) \<bar>A\<bar>))"

text \<open>
  The body of the second \<^verbatim>\<open>try\<close> (lines 273-288). The result carries the local variables
  \<^verbatim>\<open>etas\<close>, \<^verbatim>\<open>eigs\<close> and \<^verbatim>\<open>etas_fit\<close> as they stand when the block is left
  (\<open>None\<close> for \<^verbatim>\<open>etas_fit\<close> not yet bound), and either the exception that left it or
  \<^verbatim>\<open>popt\<close>, \<^verbatim>\<open>eta_fit\<close> and \<^verbatim>\<open>eta_sig\<close>. The maximum of an empty array raises ValueError.
\<close>

definition fit_try ::
  "(real list \<Rightarrow> real list \<Rightarrow> npfloat \<times> real \<times> real \<Rightarrow> exn + (real \<times> real \<times> real))
   \<Rightarrow> real list \<Rightarrow> npfloat list
   \<Rightarrow> (real list \<times> npfloat list \<times> real list option)
      \<times> (exn + ((real \<times> real \<times> real) \<times> npfloat \<times> npfloat))" where
  "fit_try curve_fit etas0 eigs0 =
     (let keep = map np_isfinite eigs0;
          etas = np_mask keep etas0;
          eigs = np_mask keep eigs0;
          vals = map fin_val eigs
      in if vals = [] then ((etas, eigs, None), Inl ValueError)
         else
           (case window_mask etas (np_mask (map (\<lambda>e. e = Max (set vals)) vals) etas) of
              Inl e \<Rightarrow> ((etas, eigs, None), Inl e)
            | Inr msk \<Rightarrow>
                let etas_fit = np_mask msk etas;
                    eigs_fit = np_mask msk vals
                in if eigs_fit = [] then ((etas, eigs, Some etas_fit), Inl ValueError)
                   else
                     let C = Max (set eigs_fit);
                         x0 = hd (np_mask (map (\<lambda>e. e = C) eigs_fit) etas_fit);
                         A = (if x0 = hd etas_fit
                              then np_fdiv (last eigs_fit - C) ((last etas_fit - x0)\<^sup>2)
                              else np_fdiv (hd eigs_fit - C) ((hd etas_fit - x0)\<^sup>2))
                     in (case curve_fit etas_fit eigs_fit (A, x0, C) of
                           Inl e \<Rightarrow> ((etas, eigs, Some etas_fit), Inl e)
                         | Inr popt \<Rightarrow>
                             ((etas, eigs, Some etas_fit),
                              Inr (popt, Fin (fst (snd popt)),
                                   eta_sig_of popt etas_fit eigs_fit)))))"

text \<open>
  The body of the third \<^verbatim>\<open>try\<close> (lines 294-297). The arguments of \<^verbatim>\<open>PlotFunc\<close> are
  evaluated in order: \<^verbatim>\<open>time\<close> and \<^verbatim>\<open>freq\<close> are not local names and are looked up among
  the globals (NameError when absent), \<^verbatim>\<open>etas_fit\<close> is unbound when the fit block was left
  before line 275.
\<close>

definition plot_try ::
  "'g lib \<Rightarrow> params \<Rightarrow> cmat \<Rightarrow> real list \<Rightarrow> real list
   \<Rightarrow> (real list \<times> npfloat list \<times> real list option)
   \<Rightarrow> (real \<times> real \<times> real) option \<Rightarrow> npfloat \<Rightarrow> npfloat \<Rightarrow> exn + unit" where
  "plot_try lib p SS fd tau loc popt eta_fit eta_sig =
     (if \<not> p_plot p then Inr ()
      else
        (case lib_globals lib ''time'' of
           None \<Rightarrow> Inl NameError
         | Some t \<Rightarrow>
             (case lib_globals lib ''freq'' of
                None \<Rightarrow> Inl NameError
              | Some f \<Rightarrow>
                  (case loc of (etas, eigs, etas_fit) \<Rightarrow>
                     (case etas_fit of
                        None \<Rightarrow> Inl NameError
                      | Some ef \<Rightarrow>
                          (case lib_PlotFunc lib t f
                                  \<lparr>pa_dspec2 = p_dspec2 p, pa_SS = SS, pa_fd = fd, pa_tau = tau,
                                   pa_edges = p_edges p, pa_eta_fit = eta_fit,
                                   pa_eta_sig = eta_sig, pa_etas = etas, pa_eigs = eigs,
                                   pa_etas_fit = ef, pa_popt = popt\<rparr> of
                             Inl e \<Rightarrow> Inl e
                           | Inr u \<Rightarrow> lib_savefig lib (p_name p)))))))"

text \<open>
  The whole function: the result tuple and what was printed. Nothing before line 266 is
  inside a \<^verbatim>\<open>try\<close>; every \<^verbatim>\<open>except\<close> is bare.
\<close>

definition single_search ::
  "'g lib \<Rightarrow> params \<Rightarrow> exn + ((npfloat \<times> npfloat \<times> real \<times> real) \<times> log_entry list)" where
  "single_search lib p =
     (let etas = np_linspace (p_eta_low p) (p_eta_high p) 100 in
      case fft_axis (p_time2 p) 3 of
        Inl e \<Rightarrow> Inl e
      | Inr fd \<Rightarrow>
          (case fft_axis (p_freq2 p) 3 of
             Inl e \<Rightarrow> Inl e
           | Inr tau \<Rightarrow>
               let SS = fftshift2 (lib_fft2 lib (dspec_pad (p_dspec2 p) 3));
                   eigs = sweep (lib_eigsh lib) SS tau fd etas (p_edges p);
                   fit = fit_try (lib_curve_fit lib) etas eigs;
                   popt = (case snd fit of Inl e \<Rightarrow> None | Inr r \<Rightarrow> Some (fst r));
                   eta_fit = (case snd fit of Inl e \<Rightarrow> NaN | Inr r \<Rightarrow> fst (snd r));
                   eta_sig = (case snd fit of Inl e \<Rightarrow> NaN | Inr r \<Rightarrow> snd (snd r));
                   out = (case plot_try lib p SS fd tau (fst fit) popt eta_fit eta_sig of
                            Inl e \<Rightarrow> [PlottingError]
                          | Inr u \<Rightarrow> [])
               in Inr ((eta_fit, eta_sig, np_mean (p_freq2 p), np_mean (p_time2 p)),
                       out @ [ChunkCompleted eta_fit eta_sig (np_mean (p_freq2 p))])))"

text \<open>A library in which every collaborator fails and the module has no global named
  \<^verbatim>\<open>time\<close> or \<^verbatim>\<open>freq\<close> (as the source has none), and a two by two chunk with no
  theta edges, for the concrete evaluation.\<close>

definition failing_lib :: "unit lib" where
  "failing_lib =
     \<lparr>lib_eigsh = (\<lambda>a k v0. Inl LibraryError),
      lib_curve_fit = (\<lambda>x y p0. Inl LibraryError),
      lib_fft2 = map (map complex_of_real),
      lib_ifft2 = (\<lambda>a. a),
      lib_PlotFunc = (\<lambda>t f a. Inl LibraryError),
      lib_savefig = (\<lambda>n. Inl LibraryError),
      lib_globals = (\<lambda>n. None)\<rparr>"

definition chunk0 :: params where
  "chunk0 =
     \<lparr>p_dspec2 = [[1, 2], [3, 4]], p_freq2 = [1, 2], p_time2 = [0, 1],
      p_eta_low = 1, p_eta_high = 2, p_edges = [], p_name = ''chunk.png'', p_plot = True\<rparr>"

subsection \<open>Inverse mapper \<^verbatim>\<open>rev_map\<close> (lines 111-157)\<close>

text \<open>
  The bin of \<^verbatim>\<open>np.histogram2d\<close> that a coordinate falls into, for non-decreasing edges
  \<open>es\<close>: bin \<open>a\<close> holds \<open>es[a] \<le> x < es[a+1]\<close>, and the last bin also holds its right edge.
\<close>

definition bin_index :: "real list \<Rightarrow> real \<Rightarrow> nat option" where
  "bin_index es x =
     (let m = length es - 1 in
      case find (\<lambda>a. es ! a \<le> x \<and> x < es ! (a + 1)) [0 ..< m] of
        Some a \<Rightarrow> Some a
      | None \<Rightarrow> if 0 < m \<and> x = es ! m then Some (m - 1) else None)"

text \<open>Lines 129-130: \<^verbatim>\<open>(np.linspace(0, n, n+1) - .5) * (ax[1] - ax[0]) + ax[0]\<close>.\<close>

definition axis_edges :: "real list \<Rightarrow> real list" where
  "axis_edges ax = map (\<lambda>k. (real k - 1 / 2) * (ax ! 1 - ax ! 0) + ax ! 0) [0 ..< length ax + 1]"

text \<open>
  One output bin (lines 132-156): the weighted sums of the real and of the imaginary parts
  over the samples in the bin, divided by their number. An empty bin is zero divided by
  zero, which \<^verbatim>\<open>np.nan_to_num\<close> turns into zero. A bin that received a weight with a
  zero divisor has a sum that is not finite; \<^verbatim>\<open>np.nan_to_num\<close> leaves zero or a number of
  largest magnitude there, depending on the IEEE special values involved, and the value
  \<open>nf\<close> stands for it.
\<close>

definition bin_value :: "complex \<Rightarrow> npcomplex list \<Rightarrow> complex" where
  "bin_value nf ws =
     (if ws = [] then 0
      else if CxNaN \<in> set ws then nf
      else (\<Sum>w\<leftarrow>ws. (case w of Cx z \<Rightarrow> z | CxNaN \<Rightarrow> 0)) / complex_of_nat (length ws))"

text \<open>
  The samples: for each pair \<open>(i, j)\<close> in row-major order the coordinates
  \<^verbatim>\<open>fd_map[i, j] = th[j] - th[i]\<close> and \<^verbatim>\<open>tau_map[i, j] = eta * (th[j]**2 - th[i]**2)\<close> and
  the weight \<^verbatim>\<open>thth[i, j] / sqrt(|2 * eta * fd_map.T[i, j]|)\<close>.
\<close>

definition rev_samples :: "fmat \<Rightarrow> real \<Rightarrow> real list \<Rightarrow> (real \<times> real \<times> npcomplex) list" where
  "rev_samples thth eta th =
     concat (map (\<lambda>i. map (\<lambda>j.
        (th ! j - th ! i, eta * ((th ! j)\<^sup>2 - (th ! i)\<^sup>2),
         np_cdiv (thth ! i ! j) (sqrt \<bar>2 * eta * (th ! i - th ! j)\<bar>))) [0 ..< length th]) [0 ..< length th])"

text \<open>
  The edges arrive from \<^verbatim>\<open>thth_redmap\<close>, whose outer edges are NaN when two centers were
  retained: the centers are then NaN, their least magnitude is NaN, the selection of line 125
  is empty and the subtraction raises ValueError. \<^verbatim>\<open>fd[1]\<close> and \<^verbatim>\<open>tau[1]\<close> raise
  IndexError; a \<open>thth\<close> of another shape than the centers raises ValueError in the division
  or in the histogram; \<^verbatim>\<open>np.histogram2d\<close> raises ValueError on decreasing edges. With
  \<open>isdspec\<close> the negated coordinates carry the conjugate weights. The result is transposed:
  row \<open>b\<close> is the tau bin, column \<open>a\<close> the fd bin; \<open>nf a b\<close> is the value left in a bin whose sum
  is not finite.
\<close>

definition rev_map ::
  "(nat \<Rightarrow> nat \<Rightarrow> complex) \<Rightarrow> fmat \<Rightarrow> real list \<Rightarrow> real list \<Rightarrow> real \<Rightarrow> npfloat list \<Rightarrow> bool
   \<Rightarrow> exn + cmat" where
  "rev_map nf thth tau fd eta edges isdspec =
     (if list_ex (\<lambda>e. \<not> np_isfinite e) edges then Inl ValueError
      else
        (case bin_centers (map fin_val edges) of
           Inl e \<Rightarrow> Inl e
         | Inr th \<Rightarrow>
             if length fd < 2 \<or> length tau < 2 then Inl IndexError
             else if length thth \<noteq> length th \<or> list_ex (\<lambda>r. length r \<noteq> length th) thth
               then Inl ValueError
             else if fd ! 1 - fd ! 0 < 0 \<or> tau ! 1 - tau ! 0 < 0 then Inl ValueError
             else
               let fd_edges = axis_edges fd;
                   tau_edges = axis_edges tau;
                   samples = rev_samples thth eta th;
                   every = samples
                     @ (if isdspec then map (\<lambda>(x, y, w). (- x, - y, np_conj w)) samples else [])
               in Inr (map (\<lambda>b. map (\<lambda>a.
                         bin_value (nf a b)
                           (map (\<lambda>(x, y, w). w)
                              (filter (\<lambda>(x, y, w). bin_index fd_edges x = Some a
                                                    \<and> bin_index tau_edges y = Some b) every)))
                       [0 ..< length fd]) [0 ..< length tau])))"

subsection \<open>Rank-1 modeler \<^verbatim>\<open>modeler\<close> (lines 159-176)\<close>

text \<open>\<^verbatim>\<open>np.fft.ifftshift\<close> rolls each axis back by half its length.\<close>

definition ifftshift :: "'a list \<Rightarrow> 'a list" where
  "ifftshift xs = drop (length xs div 2) xs @ take (length xs div 2) xs"

definition ifftshift2 :: "'a list list \<Rightarrow> 'a list list" where
  "ifftshift2 m = ifftshift (map ifftshift m)"

text \<open>
  The optional axes \<^verbatim>\<open>fd2\<close> and \<^verbatim>\<open>tau2\<close> are options and \<^verbatim>\<open>fd2==None\<close> is read as the
  test for an absent argument. \<^verbatim>\<open>w[0]\<close> and \<^verbatim>\<open>V[:,0]\<close> raise IndexError on an empty
  result of the solver.
\<close>

definition modeler ::
  "'g lib \<Rightarrow> (nat \<Rightarrow> nat \<Rightarrow> complex) \<Rightarrow> cmat \<Rightarrow> real list \<Rightarrow> real list \<Rightarrow> real \<Rightarrow> real list
   \<Rightarrow> real list option \<Rightarrow> real list option
   \<Rightarrow> exn + (cmat \<times> fmat \<times> cmat \<times> real list list \<times> npfloat list \<times> npfloat \<times> complex list)" where
  "modeler lib nf SS tau fd eta edges fd2 tau2 =
     (let fd2' = (case fd2 of None \<Rightarrow> fd | Some f \<Rightarrow> f);
          tau2' = (case tau2 of None \<Rightarrow> tau | Some t \<Rightarrow> t)
      in case thth_redmap SS tau fd eta edges of
           Inl e \<Rightarrow> Inl e
         | Inr (thth_red, edges_red) \<Rightarrow>
             (case lib_eigsh lib (map (map Cx) thth_red) 1 None of
                Inl e \<Rightarrow> Inl e
              | Inr (ws, Vm) \<Rightarrow>
                  (case ws of
                     [] \<Rightarrow> Inl IndexError
                   | w # _ \<Rightarrow>
                       if list_ex (\<lambda>row. row = []) Vm then Inl IndexError
                       else
                         let V = map hd Vm;
                             thth2_red = map (\<lambda>x. map (\<lambda>y. np_cmul (x * cnj y) (np_abs w)) V) V
                         in (case rev_map nf thth2_red tau2' fd2' eta edges_red True of
                               Inl e \<Rightarrow> Inl e
                             | Inr recov \<Rightarrow>
                                 Inr (thth_red, thth2_red, recov,
                                      map (map Re) (lib_ifft2 lib (ifftshift2 recov)),
                                      edges_red, w, V)))))"

text \<open>A library whose solver answers a fixed eigenpair, for the concrete evaluation.\<close>

definition toy_lib :: "unit lib" where
  "toy_lib =
     \<lparr>lib_eigsh = (\<lambda>a k v0. Inr ([Fin 5], [[1], [0], [0]])),
      lib_curve_fit = (\<lambda>x y p0. Inl LibraryError),
      lib_fft2 = map (map complex_of_real),
      lib_ifft2 = (\<lambda>a. a),
      lib_PlotFunc = (\<lambda>t f a. Inl LibraryError),
      lib_savefig = (\<lambda>n. Inl LibraryError),
      lib_globals = (\<lambda>n. None)\<rparr>"

section \<open>Properties\<close>

subsection \<open>Bin centers\<close>

lemma sym_about_zeroD:
  "sym_about_zero xs \<Longrightarrow> k < length xs \<Longrightarrow> xs ! k = - (xs ! (length xs - 1 - k))"
  unfolding sym_about_zero_def by blast

lemma length_midpoints: "length (midpoints e) = length e - 1"
  by (simp add: midpoints_def)

lemma nth_midpoints:
  "k < length e - 1 \<Longrightarrow> midpoints e ! k = (e ! Suc k + e ! k) / 2"
  by (simp add: midpoints_def nth_tl nth_butlast)

lemma sym_midpoints:
  assumes "sym_about_zero e"
  shows "sym_about_zero (midpoints e)"
  unfolding sym_about_zero_def
proof (intro allI impI)
  fix k assume k: "k < length (midpoints e)"
  let ?n = "length e"
  from k have kn: "k < ?n - 1" by (simp add: length_midpoints)
  have k2: "?n - 1 - 1 - k < ?n - 1" using kn by arith
  have a: "e ! Suc k = - (e ! (?n - 1 - Suc k))"
    using sym_about_zeroD[OF assms, of "Suc k"] kn by simp
  have b: "e ! k = - (e ! (?n - 1 - k))"
    using sym_about_zeroD[OF assms, of k] kn by simp
  have s: "Suc (?n - 1 - 1 - k) = ?n - 1 - k" using kn by arith
  have "midpoints e ! (?n - 1 - 1 - k) = (e ! (?n - 1 - k) + e ! (?n - 1 - 1 - k)) / 2"
    using nth_midpoints[OF k2] s by simp
  moreover have "?n - 1 - Suc k = ?n - 1 - 1 - k" by arith
  ultimately have "midpoints e ! (?n - 1 - 1 - k) = (- (e ! k) + - (e ! Suc k)) / 2"
    using a b by simp
  then have "midpoints e ! k = - (midpoints e ! (?n - 1 - 1 - k))"
    using nth_midpoints[OF kn] by simp
  then show "midpoints e ! k = - (midpoints e ! (length (midpoints e) - 1 - k))"
    by (simp only: length_midpoints)
qed

lemma filter_full: "length (filter P xs) = length xs \<Longrightarrow> filter P xs = xs"
  by (metis filter_True length_filter_less less_irrefl_nat)

lemma map2_minus_self: "map2 (-) xs xs = replicate (length xs) (0::real)"
  by (induction xs) auto

lemma min_abs_attained:
  assumes "c \<noteq> []"
  shows "\<exists>z \<in> set c. \<bar>z\<bar> = Min (set (map abs c))"
proof -
  have "Min (set (map abs c)) \<in> set (map abs c)"
    using assms by (intro Min_in) auto
  then show ?thesis by auto
qed

lemma bin_centers_sym:
  assumes sym: "sym_about_zero e" and ret: "bin_centers e = Inr cs"
  shows "sym_about_zero cs \<and> 0 \<in> set cs \<and> length cs = length e - 1"
proof -
  define c where "c = midpoints e"
  define m where "m = Min (set (map abs c))"
  define sel where "sel = filter (\<lambda>x. \<bar>x\<bar> = m) c"
  have ne: "c \<noteq> []" using ret by (auto simp: bin_centers_def c_def Let_def split: if_splits)
  have symc: "sym_about_zero c" using sym sym_midpoints c_def by simp
  consider (one) "length sel = 1" "cs = map (\<lambda>x. x - hd sel) c"
    | (all) "length sel = length c" "cs = map2 (-) c sel"
    using ret ne unfolding bin_centers_def Let_def c_def[symmetric] m_def[symmetric] sel_def[symmetric]
    by (auto split: if_splits)
  then show ?thesis
  proof cases
    case one
    then obtain z where z: "sel = [z]" by (cases sel) auto
    have "z \<in> set sel" using z by simp
    then have zin: "z \<in> set c" and zm: "\<bar>z\<bar> = m"
      by (simp_all add: sel_def)
    then obtain i where i: "i < length c" "c ! i = z" by (auto simp: in_set_conv_nth)
    have "c ! (length c - 1 - i) = - z"
      using sym_about_zeroD[OF symc, of i] i by simp
    moreover have "length c - 1 - i < length c" using i by arith
    ultimately have "- z \<in> set c" using nth_mem[of "length c - 1 - i" c] by simp
    then have "- z \<in> set sel" using zm by (simp add: sel_def)
    then have "z = 0" using z by simp
    then have "cs = c" using one z by simp
    moreover have "length c = length e - 1" by (simp add: c_def length_midpoints)
    ultimately show ?thesis using symc zin \<open>z = 0\<close> by blast
  next
    case all
    from all(1) have "sel = c" unfolding sel_def by (rule filter_full)
    then have "cs = replicate (length c) 0" using all(2) map2_minus_self by simp
    moreover have "length c = length e - 1" by (simp add: c_def length_midpoints)
    moreover have "0 < length c" using ne by simp
    ultimately show ?thesis by (simp add: sym_about_zero_def)
  qed
qed

lemma sorted_midpoints:
  assumes "sorted_wrt (<) e"
  shows "sorted_wrt (<) (midpoints e)"
  unfolding sorted_wrt_iff_nth_less
proof (intro allI impI)
  fix i j assume ij: "i < j" and j: "j < length (midpoints e)"
  then have jn: "j < length e - 1" and inn: "i < length e - 1"
    by (simp_all add: length_midpoints)
  have "e ! i < e ! j" "e ! Suc i < e ! Suc j"
    using assms ij jn by (simp_all add: sorted_wrt_iff_nth_less)
  then show "midpoints e ! i < midpoints e ! j"
    using nth_midpoints[OF jn] nth_midpoints[OF inn] by simp
qed

lemma filter_eq_distinct:
  "distinct xs \<Longrightarrow> x \<in> set xs \<Longrightarrow> filter (\<lambda>y. y = x) xs = [x]"
proof (induction xs)
  case Nil then show ?case by simp
next
  case (Cons a xs)
  show ?case
  proof (cases "a = x")
    case True
    then have "x \<notin> set xs" using Cons.prems by simp
    then have "filter (\<lambda>y. y = x) xs = []" by (auto simp: filter_empty_conv)
    then show ?thesis using True by simp
  next
    case False
    then show ?thesis using Cons by auto
  qed
qed

lemma bin_centers_returns:
  assumes sym: "sym_about_zero e" and asc: "sorted_wrt (<) e"
    and ev: "even (length e)" and len: "2 \<le> length e"
  shows "bin_centers e = Inr (midpoints e)"
proof -
  define c where "c = midpoints e"
  have lc: "length c = length e - 1" by (simp add: c_def length_midpoints)
  have ne: "c \<noteq> []" using lc len by auto
  have symc: "sym_about_zero c" using sym sym_midpoints c_def by simp
  have ascc: "sorted_wrt (<) c" using asc sorted_midpoints c_def by simp
  then have dist: "distinct c" using strict_sorted_iff by blast
  define i where "i = (length c - 1) div 2"
  have odd: "odd (length c)" using lc ev len by auto
  then have i: "i < length c" "length c - 1 - i = i"
    using ne by (auto simp: i_def elim!: oddE)
  have "c ! i = - (c ! i)" using sym_about_zeroD[OF symc i(1)] i(2) by simp
  then have ci: "c ! i = 0" by simp
  then have zin: "0 \<in> set c" using i(1) nth_mem by metis
  have fin: "finite (set (map abs c))" by simp
  have "Min (set (map abs c)) \<le> \<bar>0\<bar>"
    using zin by (intro Min_le) auto
  moreover have "0 \<le> Min (set (map abs c))"
    using ne by (subst Min_ge_iff) auto
  ultimately have m: "Min (set (map abs c)) = 0" by simp
  have "filter (\<lambda>x. \<bar>x\<bar> = 0) c = filter (\<lambda>y. y = 0) c" by simp
  then have sel: "filter (\<lambda>x. \<bar>x\<bar> = 0) c = [0]"
    using filter_eq_distinct[OF dist zin] by simp
  show ?thesis
    unfolding bin_centers_def Let_def c_def[symmetric] m
    using ne sel by simp
qed

lemma length_fold_arc_step: "length (fold (arc_step dl eu) is x) = length x"
  by (induction "is" arbitrary: x) (simp_all add: arc_step_def)

lemma fold_arc_step_nth:
  assumes "x ! 0 = dl / 2" "k \<le> m" "m < length x"
  shows "fold (arc_step dl eu) [0 ..< m] x ! k = arc_x dl eu k"
  using assms(2,3)
proof (induction m arbitrary: k)
  case 0
  then show ?case using assms(1) by simp
next
  case (Suc m)
  let ?y = "fold (arc_step dl eu) [0 ..< m] x"
  have ly: "length ?y = length x" by (rule length_fold_arc_step)
  have f: "fold (arc_step dl eu) [0 ..< Suc m] x = arc_step dl eu m ?y" by simp
  show ?case
  proof (cases "k = Suc m")
    case True
    have "?y ! m = arc_x dl eu m" using Suc.IH[of m] Suc.prems by simp
    then show ?thesis using True Suc.prems ly unfolding f arc_step_def by simp
  next
    case False
    then have "k \<le> m" using Suc.prems by simp
    then have "?y ! k = arc_x dl eu k" using Suc.IH[of k] Suc.prems by simp
    then show ?thesis using False Suc.prems ly unfolding f arc_step_def by simp
  qed
qed

lemma sym_mirror0: "sym_about_zero (map uminus (rev x) @ x)"
  unfolding sym_about_zero_def
proof (intro allI impI)
  fix k assume "k < length (map uminus (rev x) @ x)"
  then have k: "k < 2 * length x" by simp
  let ?m = "length x"
  have len: "length (map uminus (rev x) @ x) - 1 - k = 2 * ?m - 1 - k" by simp
  show "(map uminus (rev x) @ x) ! k =
        - ((map uminus (rev x) @ x) ! (length (map uminus (rev x) @ x) - 1 - k))"
  proof (cases "k < ?m")
    case True
    then have a: "(map uminus (rev x) @ x) ! k = - (x ! (?m - Suc k))"
      by (simp add: nth_append rev_nth)
    have "\<not> (2 * ?m - 1 - k < ?m)" using True by arith
    then have b: "(map uminus (rev x) @ x) ! (2 * ?m - 1 - k) = x ! (2 * ?m - 1 - k - ?m)"
      by (simp add: nth_append)
    have "2 * ?m - 1 - k - ?m = ?m - Suc k" using True by arith
    then show ?thesis using a b unfolding len by simp
  next
    case False
    then have a: "(map uminus (rev x) @ x) ! k = x ! (k - ?m)"
      by (simp add: nth_append)
    have lt: "2 * ?m - 1 - k < ?m" using False k by arith
    then have b: "(map uminus (rev x) @ x) ! (2 * ?m - 1 - k) = - (x ! (?m - Suc (2 * ?m - 1 - k)))"
      by (simp add: nth_append rev_nth)
    have "?m - Suc (2 * ?m - 1 - k) = k - ?m" using False k by arith
    then show ?thesis using a b unfolding len by simp
  qed
qed

lemma sym_scale:
  assumes "sym_about_zero ys"
  shows "sym_about_zero (map (\<lambda>v. v * d) ys)"
  unfolding sym_about_zero_def
proof (intro allI impI)
  fix k assume "k < length (map (\<lambda>v. v * d) ys)"
  then have k: "k < length ys" by simp
  then have k': "length ys - 1 - k < length ys" by arith
  show "map (\<lambda>v. v * d) ys ! k = - (map (\<lambda>v. v * d) ys ! (length (map (\<lambda>v. v * d) ys) - 1 - k))"
    using sym_about_zeroD[OF assms k] k k' by simp
qed

lemma sym_mirror: "sym_about_zero (map (\<lambda>v. v * d) (map uminus (rev x) @ x))"
  by (rule sym_scale[OF sym_mirror0])

lemma arc_edges_Inr:
  assumes "2 \<le> n"
  shows "arc_edges eta dfd dtau fd_max n =
     Inr (map (\<lambda>v. v * dfd)
        (map uminus (rev (map (arc_x (len_arc (fd_max / dfd) (dfd\<^sup>2 * eta / dtau) / (real (n div 2) - 1 / 2)) (dfd\<^sup>2 * eta / dtau)) [0 ..< n div 2]))
         @ map (arc_x (len_arc (fd_max / dfd) (dfd\<^sup>2 * eta / dtau) / (real (n div 2) - 1 / 2)) (dfd\<^sup>2 * eta / dtau)) [0 ..< n div 2]))"
proof -
  define m where "m = n div 2"
  define eu where "eu = dfd\<^sup>2 * eta / dtau"
  define dl where "dl = len_arc (fd_max / dfd) eu / (real m - 1 / 2)"
  define x1 where "x1 = (replicate m (0::real))[0 := dl / 2]"
  define x where "x = fold (arc_step dl eu) [0 ..< length x1 - 1] x1"
  have m: "0 < m" using assms by (simp add: m_def)
  have l1: "length x1 = m" by (simp add: x1_def)
  have lx: "length x = m" by (simp add: x_def length_fold_arc_step l1)
  have x10: "x1 ! 0 = dl / 2" using m by (simp add: x1_def)
  have "x = map (arc_x dl eu) [0 ..< m]"
  proof (rule nth_equalityI)
    show "length x = length (map (arc_x dl eu) [0 ..< m])" using lx by simp
  next
    fix k assume "k < length x"
    then have k: "k \<le> m - 1" "m - 1 < length x1" using lx l1 m by auto
    show "x ! k = map (arc_x dl eu) [0 ..< m] ! k"
      using fold_arc_step_nth[OF x10 k] \<open>k < length x\<close> lx l1 by (simp add: x_def)
  qed
  moreover have "arc_edges eta dfd dtau fd_max n = Inr (map (\<lambda>v. v * dfd) (map uminus (rev x) @ x))"
    using m unfolding arc_edges_def Let_def x_def x1_def dl_def eu_def m_def by simp
  ultimately show ?thesis unfolding dl_def eu_def m_def by simp
qed

subsection \<open>Claims on the binning utilities\<close>

text \<open>
  Claim C7 (the code departs from it). The edge array \<open>[-2, -1, 0, 1, 2]\<close> is strictly
  ascending and symmetric about zero (reversed, it is its own negative). Its midpoints are \<open>[-3/2, -1/2, 1/2, 3/2]\<close>, the two
  nearest zero tie in absolute value, so the selection subtracted in place has two entries
  against four centers and the computation raises ValueError instead of returning centers
  that are antisymmetric about zero with an exact zero entry. On the three edges
  \<open>[-1, 0, 1]\<close> both centers tie, the selection is the whole array and every center
  becomes zero.
\<close>

theorem C7_bin_centers_five_edges_raise:
  "rev [-2, -1, 0, 1, 2 :: real] = map uminus [-2, -1, 0, 1, 2]
   \<and> sorted_wrt (<) [-2, -1, 0, 1, 2 :: real]
   \<and> midpoints [-2, -1, 0, 1, 2] = [-3/2, -1/2, 1/2, 3/2]
   \<and> filter (\<lambda>x. \<bar>x\<bar> = Min (set (map abs (midpoints [-2, -1, 0, 1, 2]))))
         (midpoints [-2, -1, 0, 1, 2]) = [-1/2, 1/2]
   \<and> bin_centers [-2, -1, 0, 1, 2] = Inl ValueError
   \<and> bin_centers [-1, 0, 1] = Inr [0, 0]"
  by (simp add: bin_centers_def midpoints_def)

text \<open>
  Claim C8 (amended). For positive curvature and step sizes and every \<open>n \<ge> 2\<close>,
  \<^verbatim>\<open>arc_edges\<close> returns \<open>2 * (n div 2)\<close> edges (\<open>n\<close> of them for even \<open>n\<close>, \<open>n - 1\<close> for odd
  \<open>n\<close>), symmetric about zero, whose positive half follows the equal-arc-length recurrence
  scaled by \<open>dfd\<close>.
\<close>

theorem C8_arc_edges_symmetric:
  assumes "2 \<le> n" and "0 < eta" and "0 < dfd" and "0 < dtau"
  shows "\<exists>edges. arc_edges eta dfd dtau fd_max n = Inr edges
           \<and> length edges = 2 * (n div 2)
           \<and> sym_about_zero edges
           \<and> (\<forall>k < n div 2.
                edges ! (n div 2 + k) =
                  arc_x (len_arc (fd_max / dfd) (dfd\<^sup>2 * eta / dtau) / (real (n div 2) - 1 / 2))
                        (dfd\<^sup>2 * eta / dtau) k * dfd)"
proof -
  define eu where "eu = dfd\<^sup>2 * eta / dtau"
  define dl where "dl = len_arc (fd_max / dfd) eu / (real (n div 2) - 1 / 2)"
  define x where "x = map (arc_x dl eu) [0 ..< n div 2]"
  define edges where "edges = map (\<lambda>v. v * dfd) (map uminus (rev x) @ x)"
  have r: "arc_edges eta dfd dtau fd_max n = Inr edges"
    unfolding edges_def x_def dl_def eu_def by (rule arc_edges_Inr[OF assms(1)])
  have l: "length edges = 2 * (n div 2)" by (simp add: edges_def x_def)
  have s: "sym_about_zero edges" unfolding edges_def by (rule sym_mirror)
  have "edges ! (n div 2 + k) = arc_x dl eu k * dfd" if "k < n div 2" for k
    using that by (simp add: edges_def x_def nth_append)
  then show ?thesis using r l s unfolding dl_def eu_def by blast
qed

theorem C8_arc_edges_symmetric_witness:
  "(2::nat) \<le> 4 \<and> (0::real) < 1
   \<and> (\<exists>edges. arc_edges 1 1 1 1 4 = Inr edges \<and> length edges = 4 \<and> sym_about_zero edges)"
  using C8_arc_edges_symmetric[of 4 1 1 1 1] by auto

text \<open>For \<open>n = 3\<close> the array has two edges, not three.\<close>

theorem C8_odd_n_counterexample:
  "map_sum id length (arc_edges 1 1 1 1 3) = Inr 2"
  by (simp add: arc_edges_Inr)

subsection \<open>Matrices and the Hermitian step\<close>

lemma length_mat_of: "length (mat_of n f) = n"
  by (simp add: mat_of_def)

lemma nth_mat_of: "i < n \<Longrightarrow> mat_of n f ! i = map (f i) [0 ..< n]"
  by (simp add: mat_of_def)

lemma nth_nth_mat_of: "i < n \<Longrightarrow> j < n \<Longrightarrow> mat_of n f ! i ! j = f i j"
  by (simp add: mat_of_def)

lemma mat_of_cong:
  assumes "\<And>i j. i < n \<Longrightarrow> j < n \<Longrightarrow> f i j = g i j"
  shows "mat_of n f = mat_of n g"
  unfolding mat_of_def using assms by simp

lemma map2_map_map: "map2 h (map f xs) (map g xs) = map (\<lambda>x. h (f x) (g x)) xs"
  by (induction xs) simp_all

lemma mat_sub_mat_of: "mat_sub (mat_of n f) (mat_of n g) = mat_of n (\<lambda>i j. f i j - g i j)"
  unfolding mat_sub_def mat_of_def by (simp add: map2_map_map)

lemma mat_add_mat_of: "mat_add (mat_of n f) (mat_of n g) = mat_of n (\<lambda>i j. f i j + g i j)"
  unfolding mat_add_def mat_of_def by (simp add: map2_map_map)

lemma np_tril_mat_of: "np_tril (mat_of n f) = mat_of n (\<lambda>i j. if j \<le> i then f i j else 0)"
  unfolding np_tril_def length_mat_of by (rule mat_of_cong) (simp add: nth_nth_mat_of)

lemma np_triu_mat_of: "np_triu (mat_of n f) = mat_of n (\<lambda>i j. if i \<le> j then f i j else 0)"
  unfolding np_triu_def length_mat_of by (rule mat_of_cong) (simp add: nth_nth_mat_of)

lemma np_transpose_mat_of: "np_transpose (mat_of n f) = mat_of n (\<lambda>i j. f j i)"
  unfolding np_transpose_def length_mat_of by (rule mat_of_cong) (simp add: nth_nth_mat_of)

lemma np_conjugate_mat_of: "np_conjugate (mat_of n f) = mat_of n (\<lambda>i j. cnj (f i j))"
  unfolding np_conjugate_def mat_of_def by simp

lemma np_diag_diag_mat_of:
  "np_diag_mat (np_diag_vec (mat_of n f)) = mat_of n (\<lambda>i j. if i = j then f i i else 0)"
proof -
  have l: "length (np_diag_vec (mat_of n f)) = n"
    by (simp add: np_diag_vec_def length_mat_of)
  have d: "\<And>i. i < n \<Longrightarrow> np_diag_vec (mat_of n f) ! i = f i i"
    by (simp add: np_diag_vec_def length_mat_of nth_nth_mat_of)
  show ?thesis
    unfolding np_diag_mat_def l by (rule mat_of_cong) (simp add: d)
qed

lemma rev_mat_of: "rev (mat_of n f) = mat_of n (\<lambda>i j. f (n - 1 - i) j)"
proof (rule nth_equalityI)
  show "length (rev (mat_of n f)) = length (mat_of n (\<lambda>i j. f (n - 1 - i) j))"
    by (simp add: length_mat_of)
next
  fix i assume "i < length (rev (mat_of n f))"
  then have i: "i < n" by (simp add: length_mat_of)
  then have "n - Suc i < n" by arith
  then show "rev (mat_of n f) ! i = mat_of n (\<lambda>i j. f (n - 1 - i) j) ! i"
    using i by (simp add: rev_nth length_mat_of nth_mat_of)
qed

lemma force_hermitian_mat_of:
  "force_hermitian (mat_of n f) =
     mat_of n (\<lambda>i j. if i = j \<or> j = n - 1 - i then 0
                      else if i < j then f i j else cnj (f j i))"
proof -
  let ?t1 = "mat_of n (\<lambda>i j. if j \<le> i then 0 else f i j)"
  let ?t2 = "mat_of n (\<lambda>i j. if i < j then f i j else if j < i then cnj (f j i) else 0)"
  let ?t3 = "mat_of n (\<lambda>i j. if i = j then 0 else if i < j then f i j else cnj (f j i))"
  have t1: "mat_sub (mat_of n f) (np_tril (mat_of n f)) = ?t1"
    unfolding np_tril_mat_of mat_sub_mat_of by (rule mat_of_cong) simp
  have t2: "mat_add ?t1 (np_conjugate (np_transpose (np_triu ?t1))) = ?t2"
    unfolding np_triu_mat_of np_transpose_mat_of np_conjugate_mat_of mat_add_mat_of
    by (rule mat_of_cong) auto
  have t3: "mat_sub ?t2 (np_diag_mat (np_diag_vec ?t2)) = ?t3"
    unfolding np_diag_diag_mat_of mat_sub_mat_of by (rule mat_of_cong) auto
  have t4: "mat_sub ?t3 (rev (np_diag_mat (np_diag_vec (rev ?t3)))) =
     mat_of n (\<lambda>i j. if i = j \<or> j = n - 1 - i then 0
                      else if i < j then f i j else cnj (f j i))"
    unfolding rev_mat_of np_diag_diag_mat_of mat_sub_mat_of
  proof (rule mat_of_cong)
    fix i j assume ij: "i < n" "j < n"
    have a: "n - 1 - i = j \<longleftrightarrow> j = n - 1 - i" by auto
    have b: "j = n - 1 - i \<Longrightarrow> n - 1 - (n - 1 - i) = i" using ij by arith
    show "(if i = j then 0 else if i < j then f i j else cnj (f j i)) -
             (if n - 1 - i = j
              then if n - 1 - (n - 1 - i) = n - 1 - i then 0
                   else if n - 1 - (n - 1 - i) < n - 1 - i then f (n - 1 - (n - 1 - i)) (n - 1 - i)
                   else cnj (f (n - 1 - i) (n - 1 - (n - 1 - i)))
              else 0) =
          (if i = j \<or> j = n - 1 - i then 0 else if i < j then f i j else cnj (f j i))"
      using b by (cases "j = n - 1 - i") (auto simp: a)
  qed
  show ?thesis unfolding force_hermitian_def Let_def t1 t2 t3 t4 ..
qed

subsection \<open>The forward mapper\<close>







lemma bin_centers_length:
  assumes "bin_centers e = Inr cs"
  shows "length cs = length e - 1"
proof -
  define c where "c = midpoints e"
  have "length cs = length c"
    using assms unfolding bin_centers_def Let_def c_def[symmetric]
    by (auto split: if_splits)
  then show ?thesis by (simp add: c_def length_midpoints)
qed

lemma thth_map_Inr:
  assumes "thth_map SS tau fd eta edges = Inr M"
  shows "\<exists>th raw. bin_centers edges = Inr th \<and> thth_fill SS tau fd eta th = Inr raw
           \<and> M = mat_of (length th) (thth_entry eta th raw)"
proof -
  from assms obtain th where th: "bin_centers edges = Inr th"
    by (auto simp: thth_map_def split: sum.splits)
  from assms th obtain raw where raw: "thth_fill SS tau fd eta th = Inr raw"
    by (auto simp: thth_map_def split: sum.splits if_splits)
  from assms th raw have "M = force_hermitian (flux_scale eta th raw)"
    by (auto simp: thth_map_def split: if_splits)
  then have "M = mat_of (length th) (thth_entry eta th raw)"
    unfolding flux_scale_def force_hermitian_mat_of thth_entry_def .
  then show ?thesis using th raw by blast
qed


lemma thth_map_hermitian:
  assumes "thth_map SS tau fd eta edges = Inr M"
  shows "length M = length edges - 1"
    and "i < length M \<Longrightarrow> length (M ! i) = length M"
    and "i < length M \<Longrightarrow> j < length M \<Longrightarrow> M ! i ! j = cnj (M ! j ! i)"
    and "i < length M \<Longrightarrow> M ! i ! i = 0"
    and "i < length M \<Longrightarrow> M ! i ! (length M - 1 - i) = 0"
proof -
  from thth_map_Inr[OF assms] obtain th raw where th: "bin_centers edges = Inr th"
    and M: "M = mat_of (length th) (thth_entry eta th raw)" by blast
  have l: "length M = length th" by (simp add: M length_mat_of)
  show "length M = length edges - 1" using l bin_centers_length[OF th] by simp
  show "i < length M \<Longrightarrow> length (M ! i) = length M"
    using l by (simp add: M nth_mat_of)
  show "i < length M \<Longrightarrow> M ! i ! i = 0"
    using l by (simp add: M nth_nth_mat_of thth_entry_def)
  {
    assume i: "i < length M"
    then have "length M - 1 - i < length th" using l by arith
    then show "M ! i ! (length M - 1 - i) = 0"
      using i l by (simp add: M nth_nth_mat_of thth_entry_def)
  }
  {
    assume i: "i < length M" and j: "j < length M"
    have a: "i = length th - 1 - j \<longleftrightarrow> j = length th - 1 - i"
      using i j l by arith
    show "M ! i ! j = cnj (M ! j ! i)"
      using i j l a by (auto simp: M nth_nth_mat_of thth_entry_def)
  }
qed

lemma bin_centers_ex: "bin_centers [-3/2, -1/2, 1/2, 3/2] = Inr [-1, 0, 1]"
  by (simp add: bin_centers_def midpoints_def)



lemma thth_fill_exB:
  "thth_fill ones4 [-6, -3, 0, 3] [-6, -3, 0, 3] 2 [-1, 0, 1] = Inr [[1, 1, 1], [1, 1, 1], [1, 1, 1]]"
  by (simp add: thth_fill_def pnts_def tau_inv_def fd_inv_def np_mean_def np_diff_def
      SS_lookup_def np_index_def ones4_def upt_rec)

lemma thth_map_exB:
  "thth_map ones4 [-6, -3, 0, 3] [-6, -3, 0, 3] 2 [-3/2, -1/2, 1/2, 3/2]
     = Inr [[0, 2, 0], [2, 0, 2], [0, 2, 0]]"
proof -
  have "thth_map ones4 [-6, -3, 0, 3] [-6, -3, 0, 3] 2 [-3/2, -1/2, 1/2, 3/2]
      = Inr (force_hermitian (flux_scale 2 [-1, 0, 1] [[1, 1, 1], [1, 1, 1], [1, 1, 1]]))"
    using bin_centers_ex thth_fill_exB by (simp add: thth_map_def)
  also have "force_hermitian (flux_scale 2 [-1, 0, 1] [[1, 1, 1], [1, 1, 1], [1, 1, 1]])
      = [[0, 2, 0], [2, 0, 2], [0, 2, 0]]"
    unfolding flux_scale_def force_hermitian_mat_of
    by (simp add: mat_of_def upt_rec)
  finally show ?thesis .
qed

lemma thth_map_index_error:
  "thth_map [[0, 0, 0], [0, 0, 0], [0, 0, 0]] [-1, 0, 1] [-1, 0, 1] 1 [-15, -5, 5, 15] = Inl IndexError"
  by (simp add: thth_map_def bin_centers_def midpoints_def thth_fill_def pnts_def tau_inv_def
      fd_inv_def np_mean_def np_diff_def SS_lookup_def np_index_def upt_rec)


subsection \<open>Claims on the forward mapper\<close>

text \<open>
  Claim C2. Whenever the forward mapper returns a matrix \<open>M\<close>, it is square of dimension
  \<open>N = length edges - 1\<close>, \<open>M[i, j] = conj (M[j, i])\<close> for all \<open>i\<close> and \<open>j\<close>,
  \<open>M[i, i] = 0\<close> and \<open>M[i, N - 1 - i] = 0\<close> for all \<open>i\<close>.
\<close>

theorem C2_hermitian:
  assumes "thth_map SS tau fd eta edges = Inr M"
  shows "length M = length edges - 1
       \<and> (\<forall>i < length M. length (M ! i) = length M
              \<and> M ! i ! i = 0
              \<and> M ! i ! (length M - 1 - i) = 0
              \<and> (\<forall>j < length M. M ! i ! j = cnj (M ! j ! i)))"
  using thth_map_hermitian[OF assms] by blast

theorem C2_hermitian_witness:
  "thth_map ones4 [-6, -3, 0, 3] [-6, -3, 0, 3] 2 [-3/2, -1/2, 1/2, 3/2]
     = Inr [[0, 2, 0], [2, 0, 2], [0, 2, 0]]
   \<and> length [[0, 2, 0], [2, 0, 2], [0, 2, 0 :: complex]] = length [-3/2, -1/2, 1/2, 3/2 :: real] - 1
   \<and> [[0, 2, 0], [2, 0, 2], [0, 2, 0 :: complex]] ! 0 ! 1 = cnj ([[0, 2, 0], [2, 0, 2], [0, 2, 0]] ! 1 ! 0)"
proof -
  note h = C2_hermitian[OF thth_map_exB]
  have a: "length [[0, 2, 0], [2, 0, 2], [0, 2, 0 :: complex]]
             = length [-3/2, -1/2, 1/2, 3/2 :: real] - 1"
    using h by (rule conjunct1)
  have b: "[[0, 2, 0], [2, 0, 2], [0, 2, 0 :: complex]] ! 0 ! 1
             = cnj ([[0, 2, 0], [2, 0, 2], [0, 2, 0]] ! 1 ! 0)"
    using h[THEN conjunct2, rule_format, of 0, THEN conjunct2, THEN conjunct2, THEN conjunct2,
        rule_format, of 1]
    by simp
  show ?thesis using thth_map_exB a b by blast
qed



lemma exA_fd: "0 \<le> fd_inv [-2, -1, 0, 1] [-1, 0, 1] 1 2"
  by (simp add: fd_inv_def np_mean_def np_diff_def)



subsection \<open>The reduced-domain selector\<close>

lemma np_mask_map: "np_mask (map P xs) xs = filter P xs"
  unfolding np_mask_def by (induction xs) simp_all

lemma length_np_mask_eq:
  "length xs = length m \<Longrightarrow> length ys = length m \<Longrightarrow>
     length (np_mask m xs) = length (np_mask m ys)"
proof (induction m arbitrary: xs ys)
  case Nil
  then show ?case by (simp add: np_mask_def)
next
  case (Cons b m)
  then obtain x xs' y ys' where "xs = x # xs'" "ys = y # ys'"
    by (cases xs; cases ys) auto
  then show ?case using Cons.IH[of xs' ys'] Cons.prems by (simp add: np_mask_def)
qed

lemma set_np_mask: "set (np_mask m xs) \<subseteq> set xs"
  unfolding np_mask_def by (auto dest: set_zip_rightD)

lemma thth_redmap_Inr:
  assumes "thth_redmap SS tau fd eta edges = Inr (thth_red, edges_red)"
  shows "\<exists>th M. bin_centers edges = Inr th \<and> thth_map SS tau fd eta edges = Inr M
           \<and> thth_red = map (np_mask (th_pnts tau fd eta th)) (np_mask (th_pnts tau fd eta th) M)
           \<and> midpoints (retained_centers tau fd eta th) \<noteq> []
           \<and> length edges_red = length (midpoints (retained_centers tau fd eta th)) + 2"
proof -
  from assms obtain M where M: "thth_map SS tau fd eta edges = Inr M"
    by (auto simp: thth_redmap_def split: sum.splits)
  from assms M obtain th where th: "bin_centers edges = Inr th"
    by (auto simp: thth_redmap_def split: sum.splits)
  from assms M th
  have "thth_red = map (np_mask (th_pnts tau fd eta th)) (np_mask (th_pnts tau fd eta th) M)
      \<and> midpoints (retained_centers tau fd eta th) \<noteq> []
      \<and> length edges_red = length (midpoints (retained_centers tau fd eta th)) + 2"
    by (auto simp: thth_redmap_def retained_centers_def Let_def split: if_splits)
  then show ?thesis using M th by blast
qed

lemma thth_redmap_shape:
  assumes "thth_redmap SS tau fd eta edges = Inr (thth_red, edges_red)"
  shows "\<exists>th. bin_centers edges = Inr th
       \<and> retained_centers tau fd eta th
           = filter (\<lambda>t. t\<^sup>2 * eta < \<bar>Max (set tau)\<bar> \<and> \<bar>t\<bar> < \<bar>Max (set fd)\<bar> / 2) th
       \<and> (\<forall>t \<in> set th. t \<in> set (retained_centers tau fd eta th)
              \<longleftrightarrow> t\<^sup>2 * eta < \<bar>Max (set tau)\<bar> \<and> \<bar>t\<bar> < \<bar>Max (set fd)\<bar> / 2)
       \<and> length thth_red = length (retained_centers tau fd eta th)
       \<and> (\<forall>row \<in> set thth_red. length row = length (retained_centers tau fd eta th))
       \<and> 2 \<le> length (retained_centers tau fd eta th)
       \<and> length edges_red = length (retained_centers tau fd eta th) + 1"
proof -
  from thth_redmap_Inr[OF assms] obtain th M where th: "bin_centers edges = Inr th"
    and M: "thth_map SS tau fd eta edges = Inr M"
    and red: "thth_red = map (np_mask (th_pnts tau fd eta th)) (np_mask (th_pnts tau fd eta th) M)"
    and ne: "midpoints (retained_centers tau fd eta th) \<noteq> []"
    and le: "length edges_red = length (midpoints (retained_centers tau fd eta th)) + 2"
    by blast
  let ?msk = "th_pnts tau fd eta th"
  let ?kept = "retained_centers tau fd eta th"
  have f: "?kept = filter (\<lambda>t. t\<^sup>2 * eta < \<bar>Max (set tau)\<bar> \<and> \<bar>t\<bar> < \<bar>Max (set fd)\<bar> / 2) th"
    unfolding retained_centers_def th_pnts_def by (rule np_mask_map)
  from thth_map_Inr[OF M] obtain th' raw where th': "bin_centers edges = Inr th'"
    and Mm': "M = mat_of (length th') (thth_entry eta th' raw)" by blast
  have "th' = th" using th th' by simp
  then have Mm: "M = mat_of (length th) (thth_entry eta th raw)" using Mm' by simp
  have lM: "length M = length th" by (simp add: Mm length_mat_of)
  have lm: "length ?msk = length th" by (simp add: th_pnts_def)
  have rows: "length row = length th" if "row \<in> set M" for row
  proof -
    from that obtain i where "i < length M" "row = M ! i" by (auto simp: in_set_conv_nth)
    then show ?thesis using lM by (simp add: Mm nth_mat_of)
  qed
  have "length (np_mask ?msk M) = length (np_mask ?msk th)"
    by (rule length_np_mask_eq) (simp_all add: lM lm)
  then have l1: "length thth_red = length ?kept"
    unfolding red retained_centers_def by simp
  have l2: "length row = length ?kept" if "row \<in> set thth_red" for row
  proof -
    from that obtain r where r: "r \<in> set (np_mask ?msk M)" and row: "row = np_mask ?msk r"
      unfolding red by auto
    from r have "r \<in> set M" by (rule subsetD[OF set_np_mask])
    then have "length r = length th" by (rule rows)
    then have "length (np_mask ?msk r) = length (np_mask ?msk th)"
      by (intro length_np_mask_eq) (simp_all add: lm)
    then show ?thesis
      unfolding row retained_centers_def .
  qed
  have lmid: "length (midpoints ?kept) = length ?kept - 1" by (rule length_midpoints)
  have "length (midpoints ?kept) \<noteq> 0" using ne by simp
  then have k2: "2 \<le> length ?kept" using lmid by arith
  have le': "length edges_red = length ?kept + 1"
    using le k2 lmid by arith
  have m: "\<forall>t \<in> set th. t \<in> set ?kept
              \<longleftrightarrow> t\<^sup>2 * eta < \<bar>Max (set tau)\<bar> \<and> \<bar>t\<bar> < \<bar>Max (set fd)\<bar> / 2"
    unfolding f by simp
  have l2': "\<forall>row \<in> set thth_red. length row = length ?kept" using l2 by blast
  show ?thesis
    by (intro exI[of _ th] conjI) (rule th f m l1 l2' k2 le')+
qed

lemma th_pnts_exB: "th_pnts [-6, -3, 0, 3] [-6, -3, 0, 3] 2 [-1, 0, 1] = [True, True, True]"
  by (simp add: th_pnts_def)



subsection \<open>Claim on the reduced-domain selector\<close>



subsection \<open>The screen and the eigenvalue evaluation\<close>

lemma G_revmap_screen_single:
  assumes "\<forall>row \<in> set V. length row = 1"
  shows "G_revmap_screen [a] V =
           Inr (map (\<lambda>row. if a < 0 then CxNaN else Cx (cnj (row ! 0) * complex_of_real (sqrt a))) V)"
proof -
  have ex: "\<not> list_ex (\<lambda>row. length row \<noteq> Suc 0) V"
    using assms by (simp add: list_ex_iff)
  have hd: "hd (np_mask [True] row) = row ! 0" if "row \<in> set V" for row
  proof -
    from that assms have "length row = 1" by blast
    then obtain x where "row = [x]" by (cases row) auto
    then show ?thesis by (simp add: np_mask_def)
  qed
  have "map (\<lambda>v. np_conj (np_cmul v (np_sqrt a))) (map (\<lambda>row. hd (np_mask [True] row)) V)
      = map (\<lambda>row. if a < 0 then CxNaN else Cx (cnj (row ! 0) * complex_of_real (sqrt a))) V"
    using hd by (auto simp: np_sqrt_def)
  then show ?thesis
    using ex by (simp add: G_revmap_screen_def np_mask_def)
qed

lemma thth_fill_ex34:
  "thth_fill SS34 [-6, -3, 0, 3] [-6, -3, 0, 3] 2 [-1, 0, 1] = Inr [[1, 3/2, 1], [2, 1, 2], [1, 3/2, 1]]"
  by (simp add: thth_fill_def pnts_def tau_inv_def fd_inv_def np_mean_def np_diff_def
      SS_lookup_def np_index_def SS34_def upt_rec)

lemma thth_map_ex34:
  "thth_map SS34 [-6, -3, 0, 3] [-6, -3, 0, 3] 2 [-3/2, -1/2, 1/2, 3/2]
     = Inr [[0, 3, 0], [3, 0, 4], [0, 4, 0]]"
proof -
  have "thth_map SS34 [-6, -3, 0, 3] [-6, -3, 0, 3] 2 [-3/2, -1/2, 1/2, 3/2]
      = Inr (force_hermitian (flux_scale 2 [-1, 0, 1] [[1, 3/2, 1], [2, 1, 2], [1, 3/2, 1]]))"
    using bin_centers_ex thth_fill_ex34 by (simp add: thth_map_def)
  also have "force_hermitian (flux_scale 2 [-1, 0, 1] [[1, 3/2, 1], [2, 1, 2], [1, 3/2, 1]])
      = [[0, 3, 0], [3, 0, 4], [0, 4, 0]]"
    unfolding flux_scale_def force_hermitian_mat_of
    by (simp add: mat_of_def upt_rec)
  finally show ?thesis .
qed

lemma thth_redmap_ex34:
  "thth_redmap SS34 [-6, -3, 0, 3] [-6, -3, 0, 3] 2 [-3/2, -1/2, 1/2, 3/2]
     = Inr ([[0, 3, 0], [3, 0, 4], [0, 4, 0]], [Fin (-3/2), Fin (-1/2), Fin (1/2), Fin (3/2)])"
proof -
  have m: "midpoints [-1, 0, 1] = [-1/2, 1/2]" by (simp add: midpoints_def)
  have d: "np_diff [-1/2, 1/2] = [1]" by (simp add: np_diff_def)
  have mean: "np_mean [1] = 1" by (simp add: np_mean_def)
  show ?thesis
    unfolding thth_redmap_def
    using thth_map_ex34 bin_centers_ex th_pnts_exB m d mean
    by (simp add: np_mask_def)
qed

lemma row_norm_ex34: "row_norm [3, 0, 4] = 5"
proof -
  have "(\<Sum>z\<leftarrow>[3, 0, 4 :: complex]. (cmod z)\<^sup>2) = 5\<^sup>2" by simp
  then show ?thesis unfolding row_norm_def by simp
qed

lemma Eval_calc_args_ex34:
  "Eval_calc_args SS34 [-6, -3, 0, 3] [-6, -3, 0, 3] 2 [-3/2, -1/2, 1/2, 3/2]
     = Inr ([[Cx 0, Cx 3, Cx 0], [Cx (3/5), Cx 0, Cx (4/5)], [Cx 0, Cx 4, Cx 0]],
            [Cx (3/5), Cx 0, Cx (4/5)])"
  unfolding Eval_calc_args_def
  using thth_redmap_ex34 row_norm_ex34
  by (simp add: view_idiv_def view_read_def)

lemma Eval_calc_unfold:
  assumes "thth_redmap SS tau fd eta edges = Inr (thth_red, edges_red)"
  shows "Eval_calc_args SS tau fd eta edges =
           Inr ((map (map Cx) thth_red)
                  [length thth_red div 2 :=
                     map (\<lambda>z. np_cdiv (Cx z) (row_norm (thth_red ! (length thth_red div 2))))
                       (thth_red ! (length thth_red div 2))],
                map (\<lambda>z. np_cdiv (Cx z) (row_norm (thth_red ! (length thth_red div 2))))
                       (thth_red ! (length thth_red div 2)))"
proof -
  from thth_redmap_shape[OF assms] have "2 \<le> length thth_red" by auto
  then have c: "length thth_red div 2 < length thth_red" by simp
  show ?thesis
    unfolding Eval_calc_args_def using assms c
    by (simp add: view_idiv_def view_read_def Let_def comp_def)
qed


text \<open>On the concrete input, 5 is an eigenvalue of the reduced matrix, with eigenvector
  \<open>(3, 5, 4)\<close>, and it is not an eigenvalue of the matrix with the divided central row.\<close>

lemma ex34_reduced_eigenvalue:
  "mat_vec [[0, 3, 0], [3, 0, 4], [0, 4, 0]] [3, 5, 4] = map ((*) 5) [3, 5, 4]"
  by (simp add: mat_vec_def)

lemma ex34_divided_no_eigenvalue:
  assumes "mat_vec [[0, 3, 0], [3/5, 0, 4/5], [0, 4, 0]] [a, b, c] = map ((*) 5) [a, b, c]"
  shows "a = 0 \<and> b = 0 \<and> c = 0"
proof -
  from assms have 1: "3 * b = 5 * a" and 2: "3/5 * a + 4/5 * c = 5 * b" and 3: "4 * b = 5 * c"
    by (simp_all add: mat_vec_def)
  have a: "a = 3/5 * b" using 1 by (simp add: field_simps)
  have c: "c = 4/5 * b" using 3 by (simp add: field_simps)
  have "3/5 * (3/5 * b) + 4/5 * (4/5 * b) = 5 * b" using 2 unfolding a c by simp
  then have "b = 5 * b" by (simp add: field_simps)
  then have b: "b = 0" by simp
  show ?thesis using a b c by simp
qed
subsection \<open>Claims on the screen and on \<^verbatim>\<open>Eval_calc\<close>\<close>

text \<open>
  Claim C10 (the code departs from it). With the single eigenvalue \<open>-4\<close> and the
  eigenvector \<open>(1)\<close>, the screen computed by line 194 is NaN, because the root is taken of
  the eigenvalue and not of its magnitude; the claimed screen \<open>conj (V) * sqrt |w|\<close> is
  \<open>2\<close>. For a single non-negative eigenvalue the two agree
  (lemma \<open>G_revmap_screen_single\<close>).
\<close>

theorem C10_screen_negative_eigenvalue:
  "G_revmap_screen [-4] [[1]] = Inr [CxNaN] \<and> screen_claimed [-4] [[1]] 0 = [Cx 2]"
  by (simp add: G_revmap_screen_def np_mask_def np_sqrt_def screen_claimed_def)

text \<open>
  Claim C4 (the code departs from it). For every reduced matrix the solver is called on
  that matrix with its central row divided by the norm of the row, in place, and seeded with
  the divided row. On the concrete input the reduced matrix has central row \<open>(3, 0, 4)\<close>
  and the solver receives a matrix with central row \<open>(3/5, 0, 4/5)\<close>, which is no longer
  Hermitian: the recorded value is the magnitude of what the solver returns for that matrix,
  not for the reduced matrix.
\<close>

theorem C4_solver_receives_divided_row:
  "thth_redmap SS34 [-6, -3, 0, 3] [-6, -3, 0, 3] 2 [-3/2, -1/2, 1/2, 3/2]
     = Inr ([[0, 3, 0], [3, 0, 4], [0, 4, 0]], [Fin (-3/2), Fin (-1/2), Fin (1/2), Fin (3/2)])
   \<and> Eval_calc eigsh SS34 [-6, -3, 0, 3] [-6, -3, 0, 3] 2 [-3/2, -1/2, 1/2, 3/2]
     = (case eigsh [[Cx 0, Cx 3, Cx 0], [Cx (3/5), Cx 0, Cx (4/5)], [Cx 0, Cx 4, Cx 0]] 1
               (Some [Cx (3/5), Cx 0, Cx (4/5)]) of
          Inl e \<Rightarrow> Inl e
        | Inr (w, V) \<Rightarrow> (case w of [] \<Rightarrow> Inl IndexError | w0 # _ \<Rightarrow> Inr (np_abs w0)))"
  using thth_redmap_ex34 Eval_calc_args_ex34 by (simp add: Eval_calc_def)

subsection \<open>The curvature search\<close>

lemma fft_axis_returns:
  "2 \<le> length x \<Longrightarrow>
     fft_axis x pad = Inr (fftshift (fftfreq ((pad + 1) * length x) (x ! 1 - x ! 0)))"
  by (simp add: fft_axis_def)

lemma length_sweep: "length (sweep eigsh SS tau fd etas edges) = length etas"
  by (simp add: sweep_def)

lemma nth_sweep:
  "i < length etas \<Longrightarrow>
     sweep eigsh SS tau fd etas edges ! i =
       (case Eval_calc eigsh SS tau fd (etas ! i) edges of Inl e \<Rightarrow> NaN | Inr v \<Rightarrow> v)"
  by (simp add: sweep_def)

lemma length_np_linspace: "length (np_linspace a b n) = n"
  by (simp add: np_linspace_def)

lemma Eval_calc_bin_centers_raises:
  "bin_centers edges = Inl e \<Longrightarrow> Eval_calc eigsh SS tau fd eta edges = Inl e"
  by (simp add: Eval_calc_def Eval_calc_args_def thth_redmap_def thth_map_def)

lemma sweep_bin_centers_raises:
  "bin_centers edges = Inl e \<Longrightarrow> sweep eigsh SS tau fd etas edges = map (\<lambda>eta. NaN) etas"
  by (simp add: sweep_def Eval_calc_bin_centers_raises)

lemma fit_try_no_finite:
  assumes "\<forall>e \<in> set eigs. \<not> np_isfinite e"
  shows "snd (fit_try cf etas eigs) = Inl ValueError"
proof -
  have "np_mask (map np_isfinite eigs) eigs = filter np_isfinite eigs" by (rule np_mask_map)
  also have "\<dots> = []" using assms by (simp add: filter_empty_conv)
  finally show ?thesis by (simp add: fit_try_def)
qed

lemma single_search_Inr:
  assumes "fft_axis (p_time2 p) 3 = Inr fd" and "fft_axis (p_freq2 p) 3 = Inr tau"
  shows "\<exists>out. single_search lib p =
     Inr ((case snd (fit_try (lib_curve_fit lib) (np_linspace (p_eta_low p) (p_eta_high p) 100)
                     (sweep (lib_eigsh lib) (fftshift2 (lib_fft2 lib (dspec_pad (p_dspec2 p) 3))) tau fd
                        (np_linspace (p_eta_low p) (p_eta_high p) 100) (p_edges p))) of
             Inl e \<Rightarrow> NaN | Inr r \<Rightarrow> fst (snd r),
           case snd (fit_try (lib_curve_fit lib) (np_linspace (p_eta_low p) (p_eta_high p) 100)
                     (sweep (lib_eigsh lib) (fftshift2 (lib_fft2 lib (dspec_pad (p_dspec2 p) 3))) tau fd
                        (np_linspace (p_eta_low p) (p_eta_high p) 100) (p_edges p))) of
             Inl e \<Rightarrow> NaN | Inr r \<Rightarrow> snd (snd r),
           np_mean (p_freq2 p), np_mean (p_time2 p)), out)"
  using assms by (simp add: single_search_def Let_def)

lemma chunk0_fit:
  "snd (fit_try cf etas (sweep eigsh SS tau fd etas' (p_edges chunk0))) = Inl ValueError"
proof -
  have "bin_centers (p_edges chunk0) = Inl ValueError"
    by (simp add: chunk0_def bin_centers_def midpoints_def)
  then have "sweep eigsh SS tau fd etas' (p_edges chunk0) = map (\<lambda>eta. NaN) etas'"
    by (rule sweep_bin_centers_raises)
  then show ?thesis by (simp add: fit_try_no_finite)
qed


lemma plot_try_no_global:
  "p_plot p \<Longrightarrow> lib_globals lib ''time'' = None \<Longrightarrow>
     plot_try lib p SS fd tau loc popt eta_fit eta_sig = Inl NameError"
  by (simp add: plot_try_def)

lemma plot_try_off:
  "plot_try lib (p\<lparr>p_plot := False\<rparr>) SS fd tau loc popt ef es = Inr ()"
  by (simp add: plot_try_def)

lemma plot_try_raises:
  assumes "p_plot p"
    and "lib_globals lib ''time'' = None \<or> lib_globals lib ''freq'' = None
         \<or> (\<forall>t f a. isl (lib_PlotFunc lib t f a)) \<or> (\<forall>n. isl (lib_savefig lib n))"
  shows "\<exists>e. plot_try lib p SS fd tau loc popt eta_fit eta_sig = Inl e"
proof (cases "lib_globals lib ''time''")
  case None
  then show ?thesis using assms(1) by (simp add: plot_try_def)
next
  case t: (Some t)
  show ?thesis
  proof (cases "lib_globals lib ''freq''")
    case None
    then show ?thesis using assms(1) t by (simp add: plot_try_def)
  next
    case f: (Some f)
    obtain etas eigs etas_fit where loc: "loc = (etas, eigs, etas_fit)" by (cases loc) auto
    show ?thesis
    proof (cases etas_fit)
      case None
      then show ?thesis using assms(1) t f loc by (simp add: plot_try_def)
    next
      case ef: (Some ef)
      define a where "a = \<lparr>pa_dspec2 = p_dspec2 p, pa_SS = SS, pa_fd = fd, pa_tau = tau,
                                   pa_edges = p_edges p, pa_eta_fit = eta_fit,
                                   pa_eta_sig = eta_sig, pa_etas = etas, pa_eigs = eigs,
                                   pa_etas_fit = ef, pa_popt = popt\<rparr>"
      have pt: "plot_try lib p SS fd tau loc popt eta_fit eta_sig =
                  (case lib_PlotFunc lib t f a of Inl e \<Rightarrow> Inl e
                   | Inr u \<Rightarrow> lib_savefig lib (p_name p))"
        using assms(1) t f loc ef by (simp add: plot_try_def a_def)
      from assms(2) t f have "isl (lib_PlotFunc lib t f a) \<or> isl (lib_savefig lib (p_name p))"
        by auto
      then show ?thesis unfolding pt
        by (cases "lib_PlotFunc lib t f a"; cases "lib_savefig lib (p_name p)") simp_all
    qed
  qed
qed

lemma single_search_log:
  assumes "fft_axis (p_time2 p) 3 = Inr fd" and "fft_axis (p_freq2 p) 3 = Inr tau"
  shows "single_search lib p =
     (let etas = np_linspace (p_eta_low p) (p_eta_high p) 100;
          SS = fftshift2 (lib_fft2 lib (dspec_pad (p_dspec2 p) 3));
          eigs = sweep (lib_eigsh lib) SS tau fd etas (p_edges p);
          fit = fit_try (lib_curve_fit lib) etas eigs;
          popt = (case snd fit of Inl e \<Rightarrow> None | Inr r \<Rightarrow> Some (fst r));
          eta_fit = (case snd fit of Inl e \<Rightarrow> NaN | Inr r \<Rightarrow> fst (snd r));
          eta_sig = (case snd fit of Inl e \<Rightarrow> NaN | Inr r \<Rightarrow> snd (snd r))
      in Inr ((eta_fit, eta_sig, np_mean (p_freq2 p), np_mean (p_time2 p)),
              (case plot_try lib p SS fd tau (fst fit) popt eta_fit eta_sig of
                 Inl e \<Rightarrow> [PlottingError] | Inr u \<Rightarrow> [])
              @ [ChunkCompleted eta_fit eta_sig (np_mean (p_freq2 p))]))"
  using assms by (simp add: single_search_def Let_def)

subsection \<open>Claims on the curvature search\<close>

text \<open>
  Claim C3. For every params tuple whose time and frequency axes have at least two samples
  and for every behaviour of the eigensolver, the fit and the plotting, \<^verbatim>\<open>single_search\<close>
  returns a tuple \<open>(eta_fit, eta_sig, mean frequency, mean time)\<close>. The sweep records, for
  each of the hundred candidates, the value of \<^verbatim>\<open>Eval_calc\<close> or NaN where it raised, the
  other candidates being evaluated all the same; and an exception anywhere in the peak
  selection or the fit gives \<open>eta_fit = NaN\<close> and \<open>eta_sig = NaN\<close>.
\<close>

theorem C3_single_search_returns:
  assumes "2 \<le> length (p_time2 p)" and "2 \<le> length (p_freq2 p)"
  shows "\<exists>fd tau eta_fit eta_sig out.
           fft_axis (p_time2 p) 3 = Inr fd \<and> fft_axis (p_freq2 p) 3 = Inr tau
         \<and> single_search lib p =
              Inr ((eta_fit, eta_sig, np_mean (p_freq2 p), np_mean (p_time2 p)), out)
         \<and> (let etas = np_linspace (p_eta_low p) (p_eta_high p) 100;
                 SS = fftshift2 (lib_fft2 lib (dspec_pad (p_dspec2 p) 3));
                 eigs = sweep (lib_eigsh lib) SS tau fd etas (p_edges p)
             in length eigs = 100
                \<and> (\<forall>i < 100. eigs ! i =
                      (case Eval_calc (lib_eigsh lib) SS tau fd (etas ! i) (p_edges p) of
                         Inl e \<Rightarrow> NaN | Inr v \<Rightarrow> v))
                \<and> (case snd (fit_try (lib_curve_fit lib) etas eigs) of
                      Inl e \<Rightarrow> eta_fit = NaN \<and> eta_sig = NaN
                    | Inr r \<Rightarrow> eta_fit = fst (snd r) \<and> eta_sig = snd (snd r)))"
proof -
  define fd where "fd = fftshift (fftfreq ((3 + 1) * length (p_time2 p)) (p_time2 p ! 1 - p_time2 p ! 0))"
  define tau where "tau = fftshift (fftfreq ((3 + 1) * length (p_freq2 p)) (p_freq2 p ! 1 - p_freq2 p ! 0))"
  define etas where "etas = np_linspace (p_eta_low p) (p_eta_high p) 100"
  define SS where "SS = fftshift2 (lib_fft2 lib (dspec_pad (p_dspec2 p) 3))"
  define eigs where "eigs = sweep (lib_eigsh lib) SS tau fd etas (p_edges p)"
  define fit where "fit = snd (fit_try (lib_curve_fit lib) etas eigs)"
  define eta_fit where "eta_fit = (case fit of Inl e \<Rightarrow> NaN | Inr r \<Rightarrow> fst (snd r))"
  define eta_sig where "eta_sig = (case fit of Inl e \<Rightarrow> NaN | Inr r \<Rightarrow> snd (snd r))"
  have fd: "fft_axis (p_time2 p) 3 = Inr fd"
    unfolding fd_def by (rule fft_axis_returns[OF assms(1)])
  have tau: "fft_axis (p_freq2 p) 3 = Inr tau"
    unfolding tau_def by (rule fft_axis_returns[OF assms(2)])
  from single_search_Inr[OF fd tau, of lib]
  obtain out where s: "single_search lib p =
      Inr ((eta_fit, eta_sig, np_mean (p_freq2 p), np_mean (p_time2 p)), out)"
    unfolding eta_fit_def eta_sig_def fit_def eigs_def SS_def etas_def by blast
  have le: "length etas = 100" by (simp add: etas_def length_np_linspace)
  then have l: "length eigs = 100" by (simp add: eigs_def length_sweep)
  have n: "\<forall>i < 100. eigs ! i =
      (case Eval_calc (lib_eigsh lib) SS tau fd (etas ! i) (p_edges p) of
         Inl e \<Rightarrow> NaN | Inr v \<Rightarrow> v)"
    using le by (simp add: eigs_def nth_sweep)
  have c: "case fit of
             Inl e \<Rightarrow> eta_fit = NaN \<and> eta_sig = NaN
           | Inr r \<Rightarrow> eta_fit = fst (snd r) \<and> eta_sig = snd (snd r)"
    by (cases fit) (simp_all add: eta_fit_def eta_sig_def)
  have "let etas = np_linspace (p_eta_low p) (p_eta_high p) 100;
            SS = fftshift2 (lib_fft2 lib (dspec_pad (p_dspec2 p) 3));
            eigs = sweep (lib_eigsh lib) SS tau fd etas (p_edges p)
        in length eigs = 100
           \<and> (\<forall>i < 100. eigs ! i =
                 (case Eval_calc (lib_eigsh lib) SS tau fd (etas ! i) (p_edges p) of
                    Inl e \<Rightarrow> NaN | Inr v \<Rightarrow> v))
           \<and> (case snd (fit_try (lib_curve_fit lib) etas eigs) of
                 Inl e \<Rightarrow> eta_fit = NaN \<and> eta_sig = NaN
               | Inr r \<Rightarrow> eta_fit = fst (snd r) \<and> eta_sig = snd (snd r))"
    unfolding Let_def using l n c
    unfolding fit_def eigs_def SS_def etas_def by blast
  then show ?thesis using fd tau s by blast
qed

theorem C3_single_search_returns_witness:
  "2 \<le> length (p_time2 chunk0) \<and> 2 \<le> length (p_freq2 chunk0)
   \<and> (\<exists>out. single_search failing_lib chunk0 = Inr ((NaN, NaN, 3/2, 1/2), out))"
proof -
  have a: "2 \<le> length (p_time2 chunk0)" and b: "2 \<le> length (p_freq2 chunk0)"
    by (simp_all add: chunk0_def)
  have m: "np_mean (p_freq2 chunk0) = 3/2" "np_mean (p_time2 chunk0) = 1/2"
    by (simp_all add: chunk0_def np_mean_def)
  from C3_single_search_returns[OF a b, of failing_lib]
  obtain fd tau eta_fit eta_sig out where
    s: "single_search failing_lib chunk0 =
          Inr ((eta_fit, eta_sig, np_mean (p_freq2 chunk0), np_mean (p_time2 chunk0)), out)"
    and c: "case snd (fit_try (lib_curve_fit failing_lib)
                (np_linspace (p_eta_low chunk0) (p_eta_high chunk0) 100)
                (sweep (lib_eigsh failing_lib)
                   (fftshift2 (lib_fft2 failing_lib (dspec_pad (p_dspec2 chunk0) 3))) tau fd
                   (np_linspace (p_eta_low chunk0) (p_eta_high chunk0) 100) (p_edges chunk0))) of
              Inl e \<Rightarrow> eta_fit = NaN \<and> eta_sig = NaN
            | Inr r \<Rightarrow> eta_fit = fst (snd r) \<and> eta_sig = snd (snd r)"
    unfolding Let_def by blast
  from c have "eta_fit = NaN \<and> eta_sig = NaN" unfolding chunk0_fit by simp
  then show ?thesis using a b s m by auto
qed

text \<open>
  Claim C6. On the same inputs and collaborators the call with \<^verbatim>\<open>plot=True\<close> raises or
  returns exactly as the call with \<^verbatim>\<open>plot=False\<close>, with the same tuple. The call with
  \<^verbatim>\<open>plot=False\<close> never prints \<^verbatim>\<open>Plotting Error\<close>; the call with \<^verbatim>\<open>plot=True\<close>
  prints that line, in front of the same output, exactly when the plotting block of lines
  293-297 raises, and otherwise prints the same output. The block raises, and the line is
  printed, whenever the module has no global \<^verbatim>\<open>time\<close> or \<^verbatim>\<open>freq\<close> (the source defines
  neither), whenever \<^verbatim>\<open>PlotFunc\<close> raises and whenever \<^verbatim>\<open>savefig\<close> raises.
\<close>

theorem C6_plot_does_not_change_result:
  "map_sum id fst (single_search lib (p\<lparr>p_plot := True\<rparr>))
     = map_sum id fst (single_search lib (p\<lparr>p_plot := False\<rparr>))
   \<and> (case single_search lib (p\<lparr>p_plot := True\<rparr>) of
        Inl e \<Rightarrow> single_search lib (p\<lparr>p_plot := False\<rparr>) = Inl e
      | Inr (r, out) \<Rightarrow>
          (\<exists>out'. single_search lib (p\<lparr>p_plot := False\<rparr>) = Inr (r, out')
                 \<and> (out = out' \<or> out = PlottingError # out')
                 \<and> PlottingError \<notin> set out'
                 \<and> (\<forall>fd tau. fft_axis (p_time2 p) 3 = Inr fd \<and> fft_axis (p_freq2 p) 3 = Inr tau \<longrightarrow>
                      (let etas = np_linspace (p_eta_low p) (p_eta_high p) 100;
                           SS = fftshift2 (lib_fft2 lib (dspec_pad (p_dspec2 p) 3));
                           eigs = sweep (lib_eigsh lib) SS tau fd etas (p_edges p);
                           fit = fit_try (lib_curve_fit lib) etas eigs;
                           popt = (case snd fit of Inl e \<Rightarrow> None | Inr r \<Rightarrow> Some (fst r))
                       in out = (case plot_try lib (p\<lparr>p_plot := True\<rparr>) SS fd tau (fst fit) popt
                                        (fst r) (fst (snd r)) of
                                   Inl e \<Rightarrow> PlottingError # out'
                                 | Inr u \<Rightarrow> out')))
                 \<and> (lib_globals lib ''time'' = None \<or> lib_globals lib ''freq'' = None
                      \<or> (\<forall>t f a. isl (lib_PlotFunc lib t f a)) \<or> (\<forall>n. isl (lib_savefig lib n))
                     \<longrightarrow> out = PlottingError # out')))"
proof (cases "fft_axis (p_time2 p) 3")
  case (Inl e)
  then show ?thesis by (simp add: single_search_def)
next
  case fd: (Inr fd)
  show ?thesis
  proof (cases "fft_axis (p_freq2 p) 3")
    case (Inl e)
    then show ?thesis using fd by (simp add: single_search_def)
  next
    case tau: (Inr tau)
    define etas where "etas = np_linspace (p_eta_low p) (p_eta_high p) 100"
    define SS where "SS = fftshift2 (lib_fft2 lib (dspec_pad (p_dspec2 p) 3))"
    define eigs where "eigs = sweep (lib_eigsh lib) SS tau fd etas (p_edges p)"
    define fit where "fit = fit_try (lib_curve_fit lib) etas eigs"
    define popt where "popt = (case snd fit of Inl e \<Rightarrow> None | Inr r \<Rightarrow> Some (fst r))"
    define eta_fit where "eta_fit = (case snd fit of Inl e \<Rightarrow> NaN | Inr r \<Rightarrow> fst (snd r))"
    define eta_sig where "eta_sig = (case snd fit of Inl e \<Rightarrow> NaN | Inr r \<Rightarrow> snd (snd r))"
    define r where "r = (eta_fit, eta_sig, np_mean (p_freq2 p), np_mean (p_time2 p))"
    define out' where "out' = [ChunkCompleted eta_fit eta_sig (np_mean (p_freq2 p))]"
    define pl where "pl = plot_try lib (p\<lparr>p_plot := True\<rparr>) SS fd tau (fst fit) popt eta_fit eta_sig"
    have F: "single_search lib (p\<lparr>p_plot := False\<rparr>) = Inr (r, out')"
      using single_search_log[of "p\<lparr>p_plot := False\<rparr>" fd tau lib] fd tau
      by (simp add: Let_def plot_try_off r_def out'_def eta_fit_def eta_sig_def popt_def fit_def
          eigs_def SS_def etas_def)
    have T: "single_search lib (p\<lparr>p_plot := True\<rparr>) =
               Inr (r, case pl of Inl e \<Rightarrow> PlottingError # out' | Inr u \<Rightarrow> out')"
      using single_search_log[of "p\<lparr>p_plot := True\<rparr>" fd tau lib] fd tau
      by (simp add: Let_def r_def out'_def eta_fit_def eta_sig_def popt_def fit_def
          eigs_def SS_def etas_def pl_def split: sum.splits)
    have n: "PlottingError \<notin> set out'" by (simp add: out'_def)
    have d: "(case pl of Inl e \<Rightarrow> PlottingError # out' | Inr u \<Rightarrow> out') = out'
           \<or> (case pl of Inl e \<Rightarrow> PlottingError # out' | Inr u \<Rightarrow> out') = PlottingError # out'"
      by (cases pl) simp_all
    have c: "lib_globals lib ''time'' = None \<or> lib_globals lib ''freq'' = None
                      \<or> (\<forall>t f a. isl (lib_PlotFunc lib t f a)) \<or> (\<forall>n. isl (lib_savefig lib n))
             \<Longrightarrow> (case pl of Inl e \<Rightarrow> PlottingError # out' | Inr u \<Rightarrow> out') = PlottingError # out'"
      using plot_try_raises[of "p\<lparr>p_plot := True\<rparr>" lib SS fd tau "fst fit" popt eta_fit eta_sig]
      unfolding pl_def by auto
    have e: "let etas = np_linspace (p_eta_low p) (p_eta_high p) 100;
                           SS = fftshift2 (lib_fft2 lib (dspec_pad (p_dspec2 p) 3));
                           eigs = sweep (lib_eigsh lib) SS tau fd etas (p_edges p);
                           fit = fit_try (lib_curve_fit lib) etas eigs;
                           popt = (case snd fit of Inl e \<Rightarrow> None | Inr r \<Rightarrow> Some (fst r))
                       in (case pl of Inl e \<Rightarrow> PlottingError # out' | Inr u \<Rightarrow> out')
                           = (case plot_try lib (p\<lparr>p_plot := True\<rparr>) SS fd tau (fst fit) popt
                                        (fst r) (fst (snd r)) of
                                   Inl e \<Rightarrow> PlottingError # out'
                                 | Inr u \<Rightarrow> out')"
      by (simp add: Let_def pl_def r_def popt_def fit_def eigs_def SS_def etas_def)
    show ?thesis
      unfolding T F using n d c e fd tau by simp
  qed
qed

theorem C6_plot_does_not_change_result_witness:
  "lib_globals failing_lib ''time'' = None
   \<and> single_search failing_lib chunk0 = Inr ((NaN, NaN, 3/2, 1/2), [PlottingError, ChunkCompleted NaN NaN (3/2)])
   \<and> single_search failing_lib (chunk0\<lparr>p_plot := False\<rparr>) = Inr ((NaN, NaN, 3/2, 1/2), [ChunkCompleted NaN NaN (3/2)])"
proof -
  have g: "lib_globals failing_lib ''time'' = None" by (simp add: failing_lib_def)
  have p: "chunk0\<lparr>p_plot := True\<rparr> = chunk0" by (simp add: chunk0_def)
  have a: "fft_axis (p_time2 (chunk0\<lparr>p_plot := False\<rparr>)) 3 = Inr (fftshift (fftfreq ((3 + 1) * length (p_time2 chunk0)) (p_time2 chunk0 ! 1 - p_time2 chunk0 ! 0)))"
    by (simp add: fft_axis_returns chunk0_def)
  have b: "fft_axis (p_freq2 (chunk0\<lparr>p_plot := False\<rparr>)) 3 = Inr (fftshift (fftfreq ((3 + 1) * length (p_freq2 chunk0)) (p_freq2 chunk0 ! 1 - p_freq2 chunk0 ! 0)))"
    by (simp add: fft_axis_returns chunk0_def)
  have pf: "p_edges (chunk0\<lparr>p_plot := False\<rparr>) = p_edges chunk0" by simp
  have F: "single_search failing_lib (chunk0\<lparr>p_plot := False\<rparr>)
             = Inr ((NaN, NaN, 3/2, 1/2), [ChunkCompleted NaN NaN (3/2)])"
    unfolding single_search_log[OF a b] Let_def pf chunk0_fit
    by (simp add: plot_try_def chunk0_def np_mean_def)
  show ?thesis
    using C6_plot_does_not_change_result[of failing_lib chunk0] g F unfolding p
    by (auto split: sum.splits)
qed

subsection \<open>The inverse mapper and the modeler\<close>

lemma rev_map_Inr_shape:
  assumes "rev_map nf thth tau fd eta edges isdspec = Inr c"
  shows "length c = length tau" and "\<forall>row \<in> set c. length row = length fd"
  using assms unfolding rev_map_def Let_def
  by (auto split: if_splits sum.splits)

lemma rev_map_returns:
  assumes "\<not> list_ex (\<lambda>e. \<not> np_isfinite e) edges"
    and "bin_centers (map fin_val edges) = Inr th"
    and "2 \<le> length fd" "2 \<le> length tau"
    and "length thth = length th" "\<forall>r \<in> set thth. length r = length th"
    and "fd ! 0 \<le> fd ! 1" "tau ! 0 \<le> tau ! 1"
  shows "\<exists>c. rev_map nf thth tau fd eta edges isdspec = Inr c"
proof -
  have "\<not> list_ex (\<lambda>r. length r \<noteq> length th) thth"
    using assms(6) by (simp add: list_ex_iff)
  then show ?thesis
    using assms unfolding rev_map_def Let_def by (simp add: not_less)
qed

lemma modeler_Inr:
  assumes "modeler lib nf SS tau fd eta edges fd2 tau2 = Inr (a, b, c, d, e, w, V)"
  shows "thth_redmap SS tau fd eta edges = Inr (a, e)"
    and "\<exists>ws Vm. lib_eigsh lib (map (map Cx) a) 1 None = Inr (ws, Vm)
                  \<and> ws \<noteq> [] \<and> w = hd ws \<and> V = map hd Vm"
    and "b = map (\<lambda>x. map (\<lambda>y. np_cmul (x * cnj y) (np_abs w)) V) V"
    and "rev_map nf b (case tau2 of None \<Rightarrow> tau | Some t \<Rightarrow> t)
           (case fd2 of None \<Rightarrow> fd | Some f \<Rightarrow> f) eta e True = Inr c"
    and "d = map (map Re) (lib_ifft2 lib (ifftshift2 c))"
  using assms unfolding modeler_def Let_def
  by (auto split: sum.splits list.splits if_splits)

lemma modeler_ex34_returns:
  assumes "2 \<le> length fd2" "2 \<le> length tau2" "fd2 ! 0 \<le> fd2 ! 1" "tau2 ! 0 \<le> tau2 ! 1"
  shows "\<exists>recov model.
     modeler toy_lib nf SS34 [-6, -3, 0, 3] [-6, -3, 0, 3] 2 [-3/2, -1/2, 1/2, 3/2] (Some fd2) (Some tau2)
       = Inr ([[0, 3, 0], [3, 0, 4], [0, 4, 0]],
              [[Cx 5, Cx 0, Cx 0], [Cx 0, Cx 0, Cx 0], [Cx 0, Cx 0, Cx 0]],
              recov, model,
              [Fin (-3/2), Fin (-1/2), Fin (1/2), Fin (3/2)], Fin 5, [1, 0, 0])"
proof -
  have bc: "bin_centers (map fin_val [Fin (-3/2), Fin (-1/2), Fin (1/2), Fin (3/2)]) = Inr [-1, 0, 1]"
    using bin_centers_ex by simp
  have "\<exists>c. rev_map nf [[Cx 5, Cx 0, Cx 0], [Cx 0, Cx 0, Cx 0], [Cx 0, Cx 0, Cx 0]] tau2 fd2 2
              [Fin (-3/2), Fin (-1/2), Fin (1/2), Fin (3/2)] True = Inr c"
    by (rule rev_map_returns[OF _ bc assms(1,2) _ _ assms(3,4)]) simp_all
  then obtain c where c: "rev_map nf [[Cx 5, Cx 0, Cx 0], [Cx 0, Cx 0, Cx 0], [Cx 0, Cx 0, Cx 0]]
      tau2 fd2 2 [Fin (-3/2), Fin (-1/2), Fin (1/2), Fin (3/2)] True = Inr c" by blast
  show ?thesis
    unfolding modeler_def Let_def
    using thth_redmap_ex34 c by (simp add: toy_lib_def)
qed

lemma modeler_ex34_returns_default:
  "\<exists>recov model.
     modeler toy_lib nf SS34 [-6, -3, 0, 3] [-6, -3, 0, 3] 2 [-3/2, -1/2, 1/2, 3/2] None None
       = Inr ([[0, 3, 0], [3, 0, 4], [0, 4, 0]],
              [[Cx 5, Cx 0, Cx 0], [Cx 0, Cx 0, Cx 0], [Cx 0, Cx 0, Cx 0]],
              recov, model,
              [Fin (-3/2), Fin (-1/2), Fin (1/2), Fin (3/2)], Fin 5, [1, 0, 0])"
proof -
  have bc: "bin_centers (map fin_val [Fin (-3/2), Fin (-1/2), Fin (1/2), Fin (3/2)]) = Inr [-1, 0, 1]"
    using bin_centers_ex by simp
  have "\<exists>c. rev_map nf [[Cx 5, Cx 0, Cx 0], [Cx 0, Cx 0, Cx 0], [Cx 0, Cx 0, Cx 0]]
              [-6, -3, 0, 3] [-6, -3, 0, 3] 2
              [Fin (-3/2), Fin (-1/2), Fin (1/2), Fin (3/2)] True = Inr c"
    by (rule rev_map_returns[OF _ bc]) simp_all
  then obtain c where c: "rev_map nf [[Cx 5, Cx 0, Cx 0], [Cx 0, Cx 0, Cx 0], [Cx 0, Cx 0, Cx 0]]
      [-6, -3, 0, 3] [-6, -3, 0, 3] 2 [Fin (-3/2), Fin (-1/2), Fin (1/2), Fin (3/2)] True = Inr c"
    by blast
  show ?thesis
    unfolding modeler_def Let_def
    using thth_redmap_ex34 c by (simp add: toy_lib_def)
qed


subsection \<open>Claim on the rank-1 modeler\<close>

text \<open>
  Claim C9. Whenever the modeler returns, its tuple is: the reduced theta-theta matrix and
  the reduced edges of \<^verbatim>\<open>thth_redmap\<close>; the first eigenvalue and eigenvector the solver
  returned for that matrix; the rank-1 model \<open>|w| * outer (V, conj V)\<close>; the secondary
  spectrum recovered by \<^verbatim>\<open>rev_map\<close> from the model with \<open>isdspec\<close> set, on the original tau
  and fd axes when no alternates are given and on the alternates when they are, so that it
  has one row per sample of that tau axis and one column per sample of that fd axis; and
  the real part of the inverse transform of the inverse-shifted recovered spectrum.
\<close>

theorem C9_modeler_tuple:
  assumes "modeler lib nf SS tau fd eta edges fd2 tau2
             = Inr (thth_red, thth2_red, recov, model, edges_red, w, V)"
  shows "thth_redmap SS tau fd eta edges = Inr (thth_red, edges_red)
       \<and> (\<exists>ws Vm. lib_eigsh lib (map (map Cx) thth_red) 1 None = Inr (ws, Vm)
                  \<and> ws \<noteq> [] \<and> w = hd ws \<and> V = map hd Vm)
       \<and> thth2_red = map (\<lambda>x. map (\<lambda>y. np_cmul (x * cnj y) (np_abs w)) V) V
       \<and> rev_map nf thth2_red (case tau2 of None \<Rightarrow> tau | Some t \<Rightarrow> t)
           (case fd2 of None \<Rightarrow> fd | Some f \<Rightarrow> f) eta edges_red True = Inr recov
       \<and> length recov = length (case tau2 of None \<Rightarrow> tau | Some t \<Rightarrow> t)
       \<and> (\<forall>row \<in> set recov. length row = length (case fd2 of None \<Rightarrow> fd | Some f \<Rightarrow> f))
       \<and> model = map (map Re) (lib_ifft2 lib (ifftshift2 recov))"
proof -
  note m = modeler_Inr[OF assms]
  note s = rev_map_Inr_shape[OF m(4)]
  show ?thesis
    by (intro conjI) (rule m(1) m(2) m(3) m(4) s(1) s(2) m(5))+
qed


theorem C9_modeler_tuple_witness:
  "(\<exists>recov model.
     modeler toy_lib (\<lambda>a b. 0) SS34 [-6, -3, 0, 3] [-6, -3, 0, 3] 2 [-3/2, -1/2, 1/2, 3/2]
        (Some [-2, -1, 0, 1, 2]) (Some [-1, 0, 1])
       = Inr ([[0, 3, 0], [3, 0, 4], [0, 4, 0]],
              [[Cx 5, Cx 0, Cx 0], [Cx 0, Cx 0, Cx 0], [Cx 0, Cx 0, Cx 0]],
              recov, model,
              [Fin (-3/2), Fin (-1/2), Fin (1/2), Fin (3/2)], Fin 5, [1, 0, 0])
     \<and> length recov = 3 \<and> (\<forall>row \<in> set recov. length row = 5))
   \<and> (\<exists>recov model.
     modeler toy_lib (\<lambda>a b. 0) SS34 [-6, -3, 0, 3] [-6, -3, 0, 3] 2 [-3/2, -1/2, 1/2, 3/2]
        None None
       = Inr ([[0, 3, 0], [3, 0, 4], [0, 4, 0]],
              [[Cx 5, Cx 0, Cx 0], [Cx 0, Cx 0, Cx 0], [Cx 0, Cx 0, Cx 0]],
              recov, model,
              [Fin (-3/2), Fin (-1/2), Fin (1/2), Fin (3/2)], Fin 5, [1, 0, 0])
     \<and> length recov = 4 \<and> (\<forall>row \<in> set recov. length row = 4))"
proof (rule conjI)
  from modeler_ex34_returns[of "[-2, -1, 0, 1, 2]" "[-1, 0, 1]" "\<lambda>a b. 0"]
  obtain recov model where
    m: "modeler toy_lib (\<lambda>a b. 0) SS34 [-6, -3, 0, 3] [-6, -3, 0, 3] 2 [-3/2, -1/2, 1/2, 3/2]
        (Some [-2, -1, 0, 1, 2]) (Some [-1, 0, 1])
       = Inr ([[0, 3, 0], [3, 0, 4], [0, 4, 0]],
              [[Cx 5, Cx 0, Cx 0], [Cx 0, Cx 0, Cx 0], [Cx 0, Cx 0, Cx 0]],
              recov, model,
              [Fin (-3/2), Fin (-1/2), Fin (1/2), Fin (3/2)], Fin 5, [1, 0, 0])"
    by auto
  from C9_modeler_tuple[OF m]
  have "length recov = 3 \<and> (\<forall>row \<in> set recov. length row = 5)" by simp
  then show "\<exists>recov model.
     modeler toy_lib (\<lambda>a b. 0) SS34 [-6, -3, 0, 3] [-6, -3, 0, 3] 2 [-3/2, -1/2, 1/2, 3/2]
        (Some [-2, -1, 0, 1, 2]) (Some [-1, 0, 1])
       = Inr ([[0, 3, 0], [3, 0, 4], [0, 4, 0]],
              [[Cx 5, Cx 0, Cx 0], [Cx 0, Cx 0, Cx 0], [Cx 0, Cx 0, Cx 0]],
              recov, model,
              [Fin (-3/2), Fin (-1/2), Fin (1/2), Fin (3/2)], Fin 5, [1, 0, 0])
     \<and> length recov = 3 \<and> (\<forall>row \<in> set recov. length row = 5)"
    using m by blast
next
  from modeler_ex34_returns_default[of "\<lambda>a b. 0"]
  obtain recov model where
    m: "modeler toy_lib (\<lambda>a b. 0) SS34 [-6, -3, 0, 3] [-6, -3, 0, 3] 2 [-3/2, -1/2, 1/2, 3/2]
        None None
       = Inr ([[0, 3, 0], [3, 0, 4], [0, 4, 0]],
              [[Cx 5, Cx 0, Cx 0], [Cx 0, Cx 0, Cx 0], [Cx 0, Cx 0, Cx 0]],
              recov, model,
              [Fin (-3/2), Fin (-1/2), Fin (1/2), Fin (3/2)], Fin 5, [1, 0, 0])"
    by auto
  from C9_modeler_tuple[OF m]
  have "length recov = 4 \<and> (\<forall>row \<in> set recov. length row = 4)" by simp
  then show "\<exists>recov model.
     modeler toy_lib (\<lambda>a b. 0) SS34 [-6, -3, 0, 3] [-6, -3, 0, 3] 2 [-3/2, -1/2, 1/2, 3/2]
        None None
       = Inr ([[0, 3, 0], [3, 0, 4], [0, 4, 0]],
              [[Cx 5, Cx 0, Cx 0], [Cx 0, Cx 0, Cx 0], [Cx 0, Cx 0, Cx 0]],
              recov, model,
              [Fin (-3/2), Fin (-1/2), Fin (1/2), Fin (3/2)], Fin 5, [1, 0, 0])
     \<and> length recov = 4 \<and> (\<forall>row \<in> set recov. length row = 4)"
    using m by blast
qed

end
